theory Spec2Isabelle
  imports Complex_Main "HOL-Library.Sublist"
begin

section \<open>Text of a reply: the string operations of the extraction\<close>

text \<open>
  A reply of the text-generation service is a \<open>string\<close>. The extraction in
  \<open>AnalysisAgent.process\<close> uses five operations of Python's \<open>str\<close>: \<open>upper\<close>, \<open>in\<close>, \<open>find\<close>,
  slicing and \<open>strip\<close>. The definitions of \<open>upper\<close> and \<open>strip\<close> below are Python's on ASCII
  text: there \<open>upper\<close> maps \<open>a\<close>..\<open>z\<close> to \<open>A\<close>..\<open>Z\<close> and keeps the length, and the characters
  \<open>strip\<close> removes are those for which \<open>str.isspace\<close> holds (codes 9 to 13 and 28 to 32).
  Outside ASCII Python's \<open>upper\<close> can change the length of a text (a sharp s becomes
  \<open>SS\<close>) and \<open>strip\<close> removes further characters, so a result that rests on what \<open>upper\<close>
  or \<open>strip\<close> return carries the hypothesis \<open>is_ascii\<close>.
\<close>

definition is_ascii :: "string \<Rightarrow> bool" where
  "is_ascii s = list_all (\<lambda>c. (of_char c :: nat) < 128) s"

definition upper_char :: "char \<Rightarrow> char" where
  "upper_char c =
     (let n = (of_char c :: nat)
      in if 97 \<le> n \<and> n \<le> 122 then char_of (n - 32) else c)"

definition upper :: "string \<Rightarrow> string" where
  "upper s = map upper_char s"

definition isspace :: "char \<Rightarrow> bool" where
  "isspace c =
     (let n = (of_char c :: nat)
      in (9 \<le> n \<and> n \<le> 13) \<or> (28 \<le> n \<and> n \<le> 32))"

definition strip :: "string \<Rightarrow> string" where
  "strip s = rev (dropWhile isspace (rev (dropWhile isspace s)))"

text \<open>\<open>s[i:j]\<close> for \<open>0 \<le> i \<le> j\<close>: out-of-range bounds are clamped, as Python does.\<close>

definition slice :: "'a list \<Rightarrow> nat \<Rightarrow> nat \<Rightarrow> 'a list" where
  "slice s i j = take (j - i) (drop i s)"

text \<open>\<open>s.find(p)\<close>: the lowest index at which \<open>p\<close> starts in \<open>s\<close>; \<open>None\<close> is Python's -1.\<close>

fun str_find :: "string \<Rightarrow> string \<Rightarrow> nat option" where
  "str_find [] p = (if p = [] then Some 0 else None)"
| "str_find (c # cs) p =
     (if prefix p (c # cs) then Some 0 else map_option Suc (str_find cs p))"

text \<open>\<open>p in s\<close>.\<close>

definition str_in :: "string \<Rightarrow> string \<Rightarrow> bool" where
  "str_in p s = (str_find s p \<noteq> None)"

section \<open>Recommendation and confidence extraction\<close>

definition rec_patterns :: "string list" where
  "rec_patterns = [''RECOMMENDATION:'', ''**RECOMMENDATION:**'', ''RECOMMENDATION'']"

definition conf_patterns :: "string list" where
  "conf_patterns = [''CONFIDENCE:'', ''**CONFIDENCE:**'', ''CONFIDENCE'']"

text \<open>
  The \<open>for pattern in rec_patterns\<close> loop. A pattern absent from the upper-cased text is
  skipped; for a present one the text after its first occurrence is cut from the reply
  itself (not from the upper-cased copy) and tested for \<open>BUY\<close>, then \<open>SELL\<close>, then \<open>HOLD\<close>;
  a hit ends the loop (\<open>break\<close>), otherwise the next pattern is tried. The last argument
  is the value \<open>recommendation\<close> holds when the loop is entered.
\<close>

fun rec_loop :: "string \<Rightarrow> string \<Rightarrow> string list \<Rightarrow> string \<Rightarrow> string" where
  "rec_loop analysis analysis_upper [] recommendation = recommendation"
| "rec_loop analysis analysis_upper (pattern # rest) recommendation =
     (if str_in (upper pattern) analysis_upper then
        (case str_find analysis_upper (upper pattern) of
           None \<Rightarrow> rec_loop analysis analysis_upper rest recommendation
         | Some idx \<Rightarrow>
             (let rec_part = strip (slice analysis (idx + length pattern)
                                                   (idx + length pattern + 100))
              in if str_in ''BUY'' (take 30 rec_part) then ''BUY''
                 else if str_in ''SELL'' (take 30 rec_part) then ''SELL''
                 else if str_in ''HOLD'' (take 30 rec_part) then ''HOLD''
                 else rec_loop analysis analysis_upper rest recommendation))
      else rec_loop analysis analysis_upper rest recommendation)"

fun conf_loop :: "string \<Rightarrow> string \<Rightarrow> string list \<Rightarrow> string \<Rightarrow> string" where
  "conf_loop analysis analysis_upper [] confidence = confidence"
| "conf_loop analysis analysis_upper (pattern # rest) confidence =
     (if str_in (upper pattern) analysis_upper then
        (case str_find analysis_upper (upper pattern) of
           None \<Rightarrow> conf_loop analysis analysis_upper rest confidence
         | Some idx \<Rightarrow>
             (let conf_part = strip (slice analysis (idx + length pattern)
                                                    (idx + length pattern + 50))
              in if str_in ''HIGH'' (take 15 conf_part) then ''HIGH''
                 else if str_in ''MEDIUM'' (take 15 conf_part) then ''MEDIUM''
                 else if str_in ''LOW'' (take 15 conf_part) then ''LOW''
                 else conf_loop analysis analysis_upper rest confidence))
      else conf_loop analysis analysis_upper rest confidence)"

definition extract_recommendation :: "string \<Rightarrow> string" where
  "extract_recommendation analysis = rec_loop analysis (upper analysis) rec_patterns ''HOLD''"

definition extract_confidence :: "string \<Rightarrow> string" where
  "extract_confidence analysis = conf_loop analysis (upper analysis) conf_patterns ''LOW''"

text \<open>
  The text tested for a keyword after the first occurrence of a header: the first 30 (15)
  characters of the stripped cut of 100 (50) characters. These name the expressions of
  the two loops so that their results can be stated.
\<close>

definition rec_window :: "string \<Rightarrow> string \<Rightarrow> string" where
  "rec_window analysis pattern =
     (case str_find (upper analysis) (upper pattern) of
        None \<Rightarrow> []
      | Some idx \<Rightarrow> take 30 (strip (slice analysis (idx + length pattern)
                                                   (idx + length pattern + 100))))"

definition conf_window :: "string \<Rightarrow> string \<Rightarrow> string" where
  "conf_window analysis pattern =
     (case str_find (upper analysis) (upper pattern) of
        None \<Rightarrow> []
      | Some idx \<Rightarrow> take 15 (strip (slice analysis (idx + length pattern)
                                                   (idx + length pattern + 50))))"

definition has_rec_keyword :: "string \<Rightarrow> bool" where
  "has_rec_keyword w = (str_in ''BUY'' w \<or> str_in ''SELL'' w \<or> str_in ''HOLD'' w)"

definition has_conf_keyword :: "string \<Rightarrow> bool" where
  "has_conf_keyword w = (str_in ''HIGH'' w \<or> str_in ''MEDIUM'' w \<or> str_in ''LOW'' w)"

section \<open>Columns of floating-point numbers\<close>

text \<open>
  A value of a pandas float column is a finite number, an infinity or NaN, which pandas
  also uses as the placeholder of a missing value. Finite values are rationals here and
  arithmetic on them is exact: rounding is not part of the model, and zero has no sign.
  On the special values \<open>+\<close>, \<open>-\<close>, \<open>/\<close> and \<open>>\<close> follow IEEE 754, as numpy does without
  raising: a nonzero number over zero is an infinity, zero over zero is NaN, and a
  comparison with NaN is false.
\<close>

datatype f64 = Fin rat | PInf | NInf | NaN

fun f_neg :: "f64 \<Rightarrow> f64" where
  "f_neg (Fin a) = Fin (- a)"
| "f_neg PInf = NInf"
| "f_neg NInf = PInf"
| "f_neg NaN = NaN"

fun f_add :: "f64 \<Rightarrow> f64 \<Rightarrow> f64" where
  "f_add NaN y = NaN"
| "f_add x NaN = NaN"
| "f_add (Fin a) (Fin b) = Fin (a + b)"
| "f_add PInf NInf = NaN"
| "f_add NInf PInf = NaN"
| "f_add PInf y = PInf"
| "f_add NInf y = NInf"
| "f_add x PInf = PInf"
| "f_add x NInf = NInf"

definition f_sub :: "f64 \<Rightarrow> f64 \<Rightarrow> f64" where
  "f_sub x y = f_add x (f_neg y)"

fun f_div :: "f64 \<Rightarrow> f64 \<Rightarrow> f64" where
  "f_div NaN y = NaN"
| "f_div x NaN = NaN"
| "f_div (Fin a) (Fin b) =
     (if b \<noteq> 0 then Fin (a / b)
      else if 0 < a then PInf else if a < 0 then NInf else NaN)"
| "f_div (Fin a) y = Fin 0"
| "f_div PInf (Fin b) = (if b < 0 then NInf else PInf)"
| "f_div NInf (Fin b) = (if b < 0 then PInf else NInf)"
| "f_div x y = NaN"

fun f_mul :: "f64 \<Rightarrow> f64 \<Rightarrow> f64" where
  "f_mul NaN y = NaN"
| "f_mul x NaN = NaN"
| "f_mul (Fin a) (Fin b) = Fin (a * b)"
| "f_mul (Fin a) PInf = (if a = 0 then NaN else if 0 < a then PInf else NInf)"
| "f_mul (Fin a) NInf = (if a = 0 then NaN else if 0 < a then NInf else PInf)"
| "f_mul PInf (Fin b) = (if b = 0 then NaN else if 0 < b then PInf else NInf)"
| "f_mul NInf (Fin b) = (if b = 0 then NaN else if 0 < b then NInf else PInf)"
| "f_mul PInf PInf = PInf"
| "f_mul PInf NInf = NInf"
| "f_mul NInf PInf = NInf"
| "f_mul NInf NInf = PInf"

fun f_gt :: "f64 \<Rightarrow> f64 \<Rightarrow> bool" where
  "f_gt NaN y = False"
| "f_gt x NaN = False"
| "f_gt (Fin a) (Fin b) = (b < a)"
| "f_gt PInf PInf = False"
| "f_gt PInf y = True"
| "f_gt NInf y = False"
| "f_gt (Fin a) NInf = True"
| "f_gt (Fin a) PInf = False"

definition f_lt :: "f64 \<Rightarrow> f64 \<Rightarrow> bool" where
  "f_lt x y = f_gt y x"

text \<open>\<open>pd.isna\<close> on a float.\<close>

definition isna :: "f64 \<Rightarrow> bool" where
  "isna x = (x = NaN)"

text \<open>\<open>x <= y\<close>, false when either side is NaN; it serves to state a range.\<close>

definition f_le :: "f64 \<Rightarrow> f64 \<Rightarrow> bool" where
  "f_le x y = (\<not> isna x \<and> \<not> isna y \<and> \<not> f_gt x y)"

text \<open>\<open>Series.diff()\<close>: the change from the previous element, NaN at the first.\<close>

definition diff :: "f64 list \<Rightarrow> f64 list" where
  "diff xs =
     map (\<lambda>i. if i = 0 then NaN else f_sub (xs ! i) (xs ! (i - 1))) [0..<length xs]"

text \<open>\<open>Series.where(cond, other)\<close>: the element where the condition holds, else \<open>other\<close>.\<close>

definition series_where :: "f64 list \<Rightarrow> bool list \<Rightarrow> f64 \<Rightarrow> f64 list" where
  "series_where xs cond other = map (\<lambda>(x, c). if c then x else other) (zip xs cond)"

text \<open>
  The mean of one full window of \<open>rolling(window).mean()\<close>: NaN when the window holds a
  NaN, since the default \<open>min_periods\<close> is the window size.
\<close>

definition window_mean :: "f64 list \<Rightarrow> f64" where
  "window_mean w =
     (if w = [] \<or> list_ex isna w then NaN
      else f_div (foldl f_add (Fin 0) w) (Fin (of_nat (length w))))"

text \<open>\<open>Series.rolling(window).mean()\<close>: NaN until the window is full.\<close>

definition rolling_mean :: "nat \<Rightarrow> f64 list \<Rightarrow> f64 list" where
  "rolling_mean window xs =
     map (\<lambda>i. if i + 1 < window then NaN
               else window_mean (take window (drop (i + 1 - window) xs)))
         [0..<length xs]"

text \<open>\<open>Series.mean()\<close>: the mean of the elements that are not NaN, NaN when there are none.\<close>

definition series_mean :: "f64 list \<Rightarrow> f64" where
  "series_mean xs =
     (let ys = filter (\<lambda>x. \<not> isna x) xs
      in if ys = [] then NaN
         else f_div (foldl f_add (Fin 0) ys) (Fin (of_nat (length ys))))"

text \<open>
  \<open>Series.iloc[start:stop]\<close> with Python's slice bounds: a negative bound counts from the
  end, a missing one is the end of its side, and both are clamped to the length.
\<close>

definition slice_bound :: "nat \<Rightarrow> int \<Rightarrow> nat" where
  "slice_bound n i = (if i < 0 then nat (max 0 (int n + i)) else min (nat i) n)"

definition iloc_slice :: "'a list \<Rightarrow> int option \<Rightarrow> int option \<Rightarrow> 'a list" where
  "iloc_slice xs start stop =
     (let n = length xs;
          lo = (case start of None \<Rightarrow> 0 | Some i \<Rightarrow> slice_bound n i);
          hi = (case stop of None \<Rightarrow> n | Some j \<Rightarrow> slice_bound n j)
      in take (hi - lo) (drop lo xs))"

text \<open>Elementwise \<open>a / b\<close> of two columns.\<close>

definition series_div :: "f64 list \<Rightarrow> f64 list \<Rightarrow> f64 list" where
  "series_div a b = map (\<lambda>(x, y). f_div x y) (zip a b)"

section \<open>Price records, the data frame and the technical indicators\<close>

text \<open>
  A record of the price series with the three fields the analysis reads. The date is
  the value as the record holds it (of type \<open>'d\<close>, for instance a date string); closes
  are finite numbers.
\<close>

record 'd row =
  Date :: 'd
  Close :: rat
  Volume :: int

text \<open>
  The data frame \<open>df\<close>: the columns built from the records, and the columns \<open>MA20\<close>,
  \<open>MA50\<close> and \<open>RSI\<close>, which exist only once they have been assigned. The type of the
  \<open>Date\<close> column is a parameter: \<open>pd.DataFrame(historical_data)\<close> holds the dates as
  the records have them, and \<open>pd.to_datetime\<close> replaces them by timestamps.
\<close>

record 'd dataframe =
  df_Date :: "'d list"
  df_Close :: "f64 list"
  df_Volume :: "int list"
  df_MA20 :: "f64 list option"
  df_MA50 :: "f64 list option"
  df_RSI :: "f64 list option"

definition DataFrame :: "'d row list \<Rightarrow> 'd dataframe" where
  "DataFrame historical_data =
     \<lparr>df_Date = map Date historical_data,
      df_Close = map (\<lambda>r. Fin (Close r)) historical_data,
      df_Volume = map Volume historical_data,
      df_MA20 = None, df_MA50 = None, df_RSI = None\<rparr>"

text \<open>
  The two pandas operations on dates. They belong to the library, not to the sources, so
  they are parameters: \<open>to_datetime\<close> converts a column of dates as the records hold them
  into timestamps (of type \<open>'t\<close>) or raises, which is \<open>Inl\<close> of the message; \<open>date_eq t d\<close>
  is one element of \<open>df["Date"] == d\<close>, the comparison of a timestamp of the converted
  column with a date as a record holds it.
\<close>

record ('d, 't) date_ops =
  to_datetime :: "'d list \<Rightarrow> string + 't list"
  date_eq :: "'t \<Rightarrow> 'd \<Rightarrow> bool"

text \<open>
  \<open>df['Date'] = pd.to_datetime(df['Date'])\<close>. The condition before it holds for every
  frame built from records: the column exists and is not yet of a datetime type.
\<close>

definition convert_Date ::
  "('d list \<Rightarrow> string + 't list) \<Rightarrow> 'd dataframe \<Rightarrow> string + 't dataframe" where
  "convert_Date to_dt df =
     (case to_dt (df_Date df) of
        Inl e \<Rightarrow> Inl e
      | Inr timestamps \<Rightarrow>
          Inr \<lparr>df_Date = timestamps, df_Close = df_Close df, df_Volume = df_Volume df,
               df_MA20 = df_MA20 df, df_MA50 = df_MA50 df, df_RSI = df_RSI df\<rparr>)"

definition len_df :: "'d dataframe \<Rightarrow> nat" where
  "len_df df = length (df_Close df)"

text \<open>The lines of the RSI computation, one definition for each column.\<close>

definition gain :: "f64 list \<Rightarrow> f64 list" where
  "gain close = (let delta = diff close
                 in series_where delta (map (\<lambda>d. f_gt d (Fin 0)) delta) (Fin 0))"

definition loss :: "f64 list \<Rightarrow> f64 list" where
  "loss close = (let delta = diff close
                 in map f_neg (series_where delta (map (\<lambda>d. f_lt d (Fin 0)) delta) (Fin 0)))"

definition avg_gain :: "f64 list \<Rightarrow> f64 list" where
  "avg_gain close = rolling_mean 14 (gain close)"

definition avg_loss :: "f64 list \<Rightarrow> f64 list" where
  "avg_loss close = rolling_mean 14 (loss close)"

definition rs :: "f64 list \<Rightarrow> f64 list" where
  "rs close = series_div (avg_gain close) (avg_loss close)"

definition RSI :: "f64 list \<Rightarrow> f64 list" where
  "RSI close = map (\<lambda>r. f_sub (Fin 100) (f_div (Fin 100) (f_add (Fin 1) r))) (rs close)"

text \<open>
  \<open>technical_analysis\<close> is either the dictionary of the five indicators or the
  dictionary with the single key \<open>error\<close>.
\<close>

datatype technical_analysis =
  Indicators (latest_close: f64) (ma20_signal: string) (ma50_signal: string)
             (rsi: f64) (trend: string)
| NoIndicators (tech_error: string)

text \<open>
  The branch on \<open>len(df) >= 50\<close>. It returns the data frame too, since the first branch
  assigns the three columns. \<open>iloc[-1]\<close> is \<open>last\<close>: the columns are not empty there.
  The two means of the trend are exact here, while the code compares two float64 means:
  the label of the model is the code's only where rounding does not decide the
  comparison, and no result below rests on it.
\<close>

definition compute_technical :: "'d dataframe \<Rightarrow> 'd dataframe \<times> technical_analysis" where
  "compute_technical df =
     (if 50 \<le> len_df df then
        (let ma20 = rolling_mean 20 (df_Close df);
             ma50 = rolling_mean 50 (df_Close df);
             latest_close = last (df_Close df);
             ma20_signal = (if f_gt latest_close (last ma20) then ''above'' else ''below'');
             ma50_signal = (if f_gt latest_close (last ma50) then ''above'' else ''below'');
             rsi_col = RSI (df_Close df);
             latest_rsi = last rsi_col;
             recent_trend =
               (if f_gt (series_mean (iloc_slice (df_Close df) (Some (- 10)) None))
                        (series_mean (iloc_slice (df_Close df) (Some (- 20)) (Some (- 10))))
                then ''uptrend'' else ''downtrend'')
         in (df\<lparr>df_MA20 := Some ma20, df_MA50 := Some ma50, df_RSI := Some rsi_col\<rparr>,
             Indicators latest_close ma20_signal ma50_signal latest_rsi recent_trend))
      else (df, NoIndicators ''Not enough data points for technical analysis''))"

section \<open>Chart data\<close>

text \<open>A chart point; \<open>None\<close> in \<open>ma20\<close> or \<open>ma50\<close> is the key left out of the dictionary.\<close>

record 'd chart_point =
  date :: 'd
  close :: rat
  volume :: int
  ma20 :: "f64 option"
  ma50 :: "f64 option"

text \<open>
  \<open>df[df["Date"] == d].index\<close>: the positions of the rows whose timestamp compares equal
  to the date \<open>d\<close> of a record, in order.
\<close>

definition date_index :: "('t \<Rightarrow> 'd \<Rightarrow> bool) \<Rightarrow> 't list \<Rightarrow> 'd \<Rightarrow> nat list" where
  "date_index eq dates d = filter (\<lambda>i. eq (dates ! i) d) [0..<length dates]"

text \<open>
  The value written to \<open>ma20\<close> (\<open>ma50\<close>): none when the column does not exist, when no
  row matches the date, or when the column is NaN at the first row that matches.
\<close>

definition ma_field ::
  "('t \<Rightarrow> 'd \<Rightarrow> bool) \<Rightarrow> f64 list option \<Rightarrow> 't list \<Rightarrow> 'd \<Rightarrow> f64 option" where
  "ma_field eq column dates d =
     (case column of
        None \<Rightarrow> None
      | Some ma \<Rightarrow>
          (case date_index eq dates d of
             [] \<Rightarrow> None
           | i # _ \<Rightarrow> if isna (ma ! i) then None else Some (ma ! i)))"

definition prepare_chart_data ::
  "('t \<Rightarrow> 'd \<Rightarrow> bool) \<Rightarrow> 't dataframe \<Rightarrow> 'd row list \<Rightarrow> 'd chart_point list" where
  "prepare_chart_data eq df historical_data =
     map (\<lambda>row. \<lparr>date = Date row, close = Close row, volume = Volume row,
                  ma20 = ma_field eq (df_MA20 df) (df_Date df) (Date row),
                  ma50 = ma_field eq (df_MA50 df) (df_Date df) (Date row)\<rparr>)
         historical_data"

section \<open>The two stages\<close>

text \<open>
  A stage returns \<open>Inl message\<close> for the dictionary \<open>{"success": False, "error": message}\<close>
  and \<open>Inr result\<close> for a result with \<open>"success": True\<close>, together with the calls it made
  to its collaborators, in order. A collaborator may raise: it then returns \<open>Inl\<close> of the
  exception's message, which the stage's \<open>except Exception\<close> turns into the error result.
  The status labels and the \<open>timestamp\<close> field are not modelled. Values are those of JSON,
  so the debugging dumps of the input cannot raise.
\<close>

datatype call =
  FetchStockData string string
| FetchNews string
| GetStockFundamentals string
| CallOllama

text \<open>
  A figure of the company information: a number, or a text where the provider sends one.
\<close>

datatype figure = Number rat | Text string

text \<open>
  The company information: a dictionary whose entries may be missing. The entries the
  prompt reads are fields, the names and the sector as text and the three figures;
  \<open>other_entries\<close> are the remaining ones.
\<close>

record company_info =
  longName :: "string option"
  sector :: "string option"
  industry :: "string option"
  marketCap :: "figure option"
  trailingPE :: "figure option"
  dividendYield :: "figure option"
  other_entries :: "(string \<times> string) list"

text \<open>The empty dictionary.\<close>

definition no_info :: company_info where
  "no_info = \<lparr>longName = None, sector = None, industry = None, marketCap = None,
               trailingPE = None, dividendYield = None, other_entries = []\<rparr>"

subsection \<open>Analysis stage\<close>

text \<open>The value under \<open>historical_data\<close>; \<open>None\<close> in a field is a missing key.\<close>

record 'd historical =
  hist_data :: "'d row list option"
  hist_info :: "company_info option"

text \<open>A news article; only its title is read.\<close>

record news_item =
  title :: "string option"

record ('d, 'f) analysis_input =
  in_success :: "bool option"
  in_symbol :: "string option"
  in_period :: "string option"
  in_period_description :: "string option"
  in_historical_data :: "'d historical option"
  in_chart_data :: "'d row list option"
  in_company_info :: "company_info option"
  in_news :: "news_item list option"
  in_fundamentals :: "'f option"

record 'd analysis_result =
  res_symbol :: string
  res_period :: "string option"
  res_period_description :: string
  res_company_info :: company_info
  res_analysis :: string
  res_recommendation :: string
  res_confidence :: string
  res_technical_indicators :: technical_analysis
  res_chart_data :: "'d chart_point list"

text \<open>\<open>d.get(key, default)\<close>.\<close>

definition get_or :: "'a option \<Rightarrow> 'a \<Rightarrow> 'a" where
  "get_or v dflt = (case v of None \<Rightarrow> dflt | Some x \<Rightarrow> x)"

text \<open>
  The price series the stage works on: \<open>historical_data["data"]\<close>, replaced by
  \<open>chart_data\<close> when it is empty and \<open>chart_data\<close> is not.
\<close>

definition select_historical_data :: "('d, 'f) analysis_input \<Rightarrow> 'd row list" where
  "select_historical_data input_data =
     (let historical_data_obj =
            get_or (in_historical_data input_data) \<lparr>hist_data = None, hist_info = None\<rparr>;
          historical_data = get_or (hist_data historical_data_obj) [];
          chart_data = get_or (in_chart_data input_data) []
      in if historical_data = [] \<and> chart_data \<noteq> [] then chart_data else historical_data)"

definition select_company_info :: "('d, 'f) analysis_input \<Rightarrow> company_info" where
  "select_company_info input_data =
     (let company_info =
            get_or (hist_info (get_or (in_historical_data input_data)
                                 \<lparr>hist_data = None, hist_info = None\<rparr>)) no_info
      in if company_info = no_info then get_or (in_company_info input_data) no_info
         else company_info)"

text \<open>
  The prompt. Its text is fixed wording around the values below, the numbers shown to two
  decimals, so the record of these values stands for the rendered text. A line that the
  code writes only for a value that is present and counts as true (a text that is not
  empty, a number that is not zero) is an optional field.
\<close>

record prompt =
  prompt_symbol :: string
  company_name :: string
  sector_line :: "string option"
  industry_line :: "string option"
  technical_lines :: technical_analysis
  market_cap_billions :: "rat option"
  pe_ratio :: "rat option"
  dividend_yield_percent :: "rat option"
  news_titles :: "string option list"
  period_label :: string
  period_change :: "f64 option"
  month_change :: "f64 option"

definition truthy_text :: "string option \<Rightarrow> string option" where
  "truthy_text v = (case v of None \<Rightarrow> None | Some s \<Rightarrow> if s = [] then None else Some s)"

text \<open>A name between single quotes, as Python's messages show a type or a key.\<close>

definition quoted :: "string \<Rightarrow> string" where
  "quoted name = CHR 0x27 # name @ [CHR 0x27]"

text \<open>
  The messages of the two exceptions a text among the figures leads to: of the division
  of a text by \<open>1e9\<close>, and of the format \<open>.2f\<close> applied to a text.
\<close>

definition TypeError_div :: string where
  "TypeError_div =
     ''unsupported operand type(s) for /: '' @ quoted ''str'' @ '' and '' @ quoted ''float''"

definition ValueError_format :: string where
  "ValueError_format =
     ''Unknown format code '' @ quoted ''f'' @ '' for object of type '' @ quoted ''str''"

text \<open>
  The three lines of the fundamentals summary. Each is written only for a value that is
  present and counts as true; a number is then shown (in billions, as it is, as a
  percentage), while a text raises: the market capitalisation in the division, the other
  two in the format, the dividend yield after the text has been repeated 100 times.
\<close>

definition market_cap_line :: "figure option \<Rightarrow> string + rat option" where
  "market_cap_line v =
     (case v of
        None \<Rightarrow> Inr None
      | Some (Number x) \<Rightarrow> Inr (if x = 0 then None else Some (x / 1000000000))
      | Some (Text s) \<Rightarrow> if s = [] then Inr None else Inl TypeError_div)"

definition pe_line :: "figure option \<Rightarrow> string + rat option" where
  "pe_line v =
     (case v of
        None \<Rightarrow> Inr None
      | Some (Number x) \<Rightarrow> Inr (if x = 0 then None else Some x)
      | Some (Text s) \<Rightarrow> if s = [] then Inr None else Inl ValueError_format)"

definition dividend_line :: "figure option \<Rightarrow> string + rat option" where
  "dividend_line v =
     (case v of
        None \<Rightarrow> Inr None
      | Some (Number x) \<Rightarrow> Inr (if x = 0 then None else Some (x * 100))
      | Some (Text s) \<Rightarrow> if s = [] then Inr None else Inl ValueError_format)"

text \<open>\<open>((last_price - first_price) / first_price) * 100\<close> on floats.\<close>

definition percent_change :: "f64 \<Rightarrow> f64 \<Rightarrow> f64" where
  "percent_change first_price last_price =
     f_mul (f_div (f_sub last_price first_price) first_price) (Fin 100)"

text \<open>
  The summaries of the prompt, in the order of the code: company, technical indicators,
  fundamentals, the titles of the first three news articles and the price performance.
  Only the fundamentals can raise, on a text among the figures; in the price performance
  a division by zero yields an infinity or NaN, which is then printed.
\<close>

definition render_prompt ::
  "string \<Rightarrow> string \<Rightarrow> company_info \<Rightarrow> news_item list \<Rightarrow> 't dataframe \<Rightarrow>
   technical_analysis \<Rightarrow> string + prompt" where
  "render_prompt symbol period company_info news df technical_analysis =
     (case market_cap_line (marketCap company_info) of
        Inl e \<Rightarrow> Inl e
      | Inr market_cap \<Rightarrow>
          (case pe_line (trailingPE company_info) of
             Inl e \<Rightarrow> Inl e
           | Inr pe \<Rightarrow>
               (case dividend_line (dividendYield company_info) of
                  Inl e \<Rightarrow> Inl e
                | Inr dividend \<Rightarrow>
                    Inr \<lparr>prompt_symbol = symbol,
                         company_name = get_or (longName company_info) symbol,
                         sector_line = truthy_text (sector company_info),
                         industry_line = truthy_text (industry company_info),
                         technical_lines = technical_analysis,
                         market_cap_billions = market_cap,
                         pe_ratio = pe,
                         dividend_yield_percent = dividend,
                         news_titles = map title (take 3 news),
                         period_label = period,
                         period_change =
                           (if 0 < len_df df
                            then Some (percent_change (hd (df_Close df)) (last (df_Close df)))
                            else None),
                         month_change =
                           (if 30 \<le> len_df df
                            then Some (percent_change (df_Close df ! (len_df df - 30))
                                         (last (df_Close df)))
                            else None)\<rparr>)))"

text \<open>
  \<open>AnalysisAgent.process\<close>. After the two guards the \<open>Date\<close> column is converted, which
  can raise; the indicators follow, then the prompt, whose rendering can raise, then the
  call to the text-generation service \<open>call_ollama\<close>, which can raise too; the extraction
  and the chart data cannot. Whatever is raised is caught by the \<open>except Exception\<close> of
  the stage, which returns the message.
\<close>

definition AnalysisAgent_process ::
  "('d, 't) date_ops \<Rightarrow> (prompt \<Rightarrow> string + string) \<Rightarrow>
   ('d, 'f) analysis_input \<Rightarrow> (string + 'd analysis_result) \<times> call list" where
  "AnalysisAgent_process pd call_ollama input_data =
     (if \<not> get_or (in_success input_data) False then (Inl ''Invalid input data'', [])
      else
        (let symbol = get_or (in_symbol input_data) [];
             period = get_or (in_period_description input_data) [];
             historical_data = select_historical_data input_data;
             company_info = select_company_info input_data;
             news = get_or (in_news input_data) []
         in if historical_data = [] then
              (Inl ''No historical data available for analysis'', [])
            else
              (case convert_Date (to_datetime pd) (DataFrame historical_data) of
                 Inl e \<Rightarrow> (Inl e, [])
               | Inr converted \<Rightarrow>
                   (case compute_technical converted of
                      (df, technical_analysis) \<Rightarrow>
                        (case render_prompt symbol period company_info news df
                                technical_analysis of
                           Inl e \<Rightarrow> (Inl e, [])
                         | Inr request \<Rightarrow>
                             (case call_ollama request of
                                Inl e \<Rightarrow> (Inl e, [CallOllama])
                              | Inr analysis \<Rightarrow>
                                  (Inr \<lparr>res_symbol = symbol,
                                        res_period = in_period input_data,
                                        res_period_description = period,
                                        res_company_info = company_info,
                                        res_analysis = analysis,
                                        res_recommendation = extract_recommendation analysis,
                                        res_confidence = extract_confidence analysis,
                                        res_technical_indicators = technical_analysis,
                                        res_chart_data =
                                          prepare_chart_data (date_eq pd) df
                                            historical_data\<rparr>,
                                   [CallOllama])))))))"

subsection \<open>Collection stage\<close>

text \<open>The answer of the price and company provider; \<open>source\<close> and \<open>error\<close> may be missing.\<close>

record 'd stock_response =
  resp_success :: bool
  resp_data :: "'d row list"
  resp_info :: company_info
  resp_source :: "string option"
  resp_error :: "string option"

record collector_input =
  col_symbol :: "string option"
  col_period :: "string option"

text \<open>The value the result holds under \<open>historical_data\<close>: four keys, \<open>source\<close> filled in.\<close>

record 'd collected_history =
  ch_success :: bool
  ch_data :: "'d row list"
  ch_info :: company_info
  ch_source :: string

record ('d, 'n, 'f) collector_result =
  out_symbol :: string
  out_period :: string
  out_period_description :: string
  out_historical_data :: "'d collected_history"
  out_news :: "'n list"
  out_fundamentals :: 'f
  out_data_insights :: string
  out_chart_data :: "'d row list"
  out_company_info :: company_info

text \<open>
  The collaborators of the stage, which are not among the sources: the table
  \<open>TIME_PERIODS\<close> of \<open>config\<close>, the three fetch functions of \<open>utils.stock_utils\<close> and the
  text-generation service, given the values its prompt is rendered from. The news fetch
  returns a sequence, whose length the prompt reports; the fundamentals are any value.
\<close>

record ('d, 'n, 'f) collaborators =
  TIME_PERIODS :: "string \<rightharpoonup> string"
  fetch_stock_data :: "string \<Rightarrow> string \<Rightarrow> string + 'd stock_response"
  fetch_news :: "string \<Rightarrow> string + 'n list"
  get_stock_fundamentals :: "string \<Rightarrow> string + 'f"
  data_insights_ollama ::
    "string \<Rightarrow> string \<Rightarrow> 'd stock_response \<Rightarrow> 'n list \<Rightarrow> string + string"

text \<open>\<open>str(KeyError(key))\<close> for a string key: the key in single quotes.\<close>

definition KeyError :: "string \<Rightarrow> string" where
  "KeyError key = CHR 0x27 # key @ [CHR 0x27]"

text \<open>The period after \<open>if period not in TIME_PERIODS: period = '1y'\<close>.\<close>

definition resolve_period :: "(string \<rightharpoonup> string) \<Rightarrow> string option \<Rightarrow> string" where
  "resolve_period table p =
     (let period = get_or p ''1y''
      in if table period = None then ''1y'' else period)"

definition DataCollectorAgent_process ::
  "('d, 'n, 'f) collaborators \<Rightarrow> collector_input \<Rightarrow>
   (string + ('d, 'n, 'f) collector_result) \<times> call list" where
  "DataCollectorAgent_process env input_data =
     (let symbol = get_or (col_symbol input_data) []
      in if symbol = [] then (Inl ''Stock symbol is required'', [])
         else
           (let period = resolve_period (TIME_PERIODS env) (col_period input_data)
            in case TIME_PERIODS env period of
                 None \<Rightarrow> (Inl (KeyError period), [])
               | Some description \<Rightarrow>
                   (case fetch_stock_data env symbol period of
                      Inl e \<Rightarrow> (Inl e, [FetchStockData symbol period])
                    | Inr historical_data \<Rightarrow>
                        if \<not> resp_success historical_data then
                          (case resp_error historical_data of
                             None \<Rightarrow> (Inl (KeyError ''error''), [FetchStockData symbol period])
                           | Some e \<Rightarrow> (Inl e, [FetchStockData symbol period]))
                        else
                          (case fetch_news env symbol of
                             Inl e \<Rightarrow> (Inl e, [FetchStockData symbol period, FetchNews symbol])
                           | Inr news \<Rightarrow>
                               (case get_stock_fundamentals env symbol of
                                  Inl e \<Rightarrow>
                                    (Inl e, [FetchStockData symbol period, FetchNews symbol,
                                             GetStockFundamentals symbol])
                                | Inr fundamentals \<Rightarrow>
                                    (case data_insights_ollama env symbol description
                                            historical_data news of
                                       Inl e \<Rightarrow>
                                         (Inl e, [FetchStockData symbol period, FetchNews symbol,
                                                  GetStockFundamentals symbol, CallOllama])
                                     | Inr data_insights \<Rightarrow>
                                         (Inr \<lparr>out_symbol = symbol,
                                               out_period = period,
                                               out_period_description = description,
                                               out_historical_data =
                                                 \<lparr>ch_success = resp_success historical_data,
                                                  ch_data = resp_data historical_data,
                                                  ch_info = resp_info historical_data,
                                                  ch_source =
                                                    get_or (resp_source historical_data)
                                                      ''unknown''\<rparr>,
                                               out_news = news,
                                               out_fundamentals = fundamentals,
                                               out_data_insights = data_insights,
                                               out_chart_data = resp_data historical_data,
                                               out_company_info = resp_info historical_data\<rparr>,
                                          [FetchStockData symbol period, FetchNews symbol,
                                           GetStockFundamentals symbol, CallOllama])))))))"

section \<open>Day-over-day rises and falls of a price series\<close>

text \<open>
  The columns \<open>gain\<close> and \<open>loss\<close> of a series of finite closes, as numbers: the rise
  (the fall) from the previous close where there is one, otherwise zero. They state what
  the RSI columns hold and are not part of the code.
\<close>

definition rises :: "rat list \<Rightarrow> rat list" where
  "rises cs = map (\<lambda>i. if i = 0 then 0 else max 0 (cs ! i - cs ! (i - 1))) [0..<length cs]"

definition falls :: "rat list \<Rightarrow> rat list" where
  "falls cs = map (\<lambda>i. if i = 0 then 0 else max 0 (cs ! (i - 1) - cs ! i)) [0..<length cs]"

section \<open>Figures the prompt can show\<close>

text \<open>
  A figure that the fundamentals summary can be written for: it is missing, a number, or
  the empty text, which counts as false and is skipped. This states when the rendering of
  the prompt succeeds and is not part of the code.
\<close>

definition figure_ok :: "figure option \<Rightarrow> bool" where
  "figure_ok v = (case v of Some (Text s) \<Rightarrow> s = [] | _ \<Rightarrow> True)"

definition figures_ok :: "company_info \<Rightarrow> bool" where
  "figures_ok company_info =
     (figure_ok (marketCap company_info) \<and> figure_ok (trailingPE company_info)
      \<and> figure_ok (dividendYield company_info))"

section \<open>Example price series\<close>

text \<open>
  Fifty trading days, as date strings, and fifty daily records on them for each of: a flat
  series, a rise followed by fifteen equal closes, a steady rise and a steady fall; and
  the first 49 records of the rise.
\<close>

definition example_dates :: "string list" where
  "example_dates =
    [''2024-01-02'', ''2024-01-03'', ''2024-01-04'', ''2024-01-05'', ''2024-01-08'',
     ''2024-01-09'', ''2024-01-10'', ''2024-01-11'', ''2024-01-12'', ''2024-01-15'',
     ''2024-01-16'', ''2024-01-17'', ''2024-01-18'', ''2024-01-19'', ''2024-01-22'',
     ''2024-01-23'', ''2024-01-24'', ''2024-01-25'', ''2024-01-26'', ''2024-01-29'',
     ''2024-01-30'', ''2024-01-31'', ''2024-02-01'', ''2024-02-02'', ''2024-02-05'',
     ''2024-02-06'', ''2024-02-07'', ''2024-02-08'', ''2024-02-09'', ''2024-02-12'',
     ''2024-02-13'', ''2024-02-14'', ''2024-02-15'', ''2024-02-16'', ''2024-02-19'',
     ''2024-02-20'', ''2024-02-21'', ''2024-02-22'', ''2024-02-23'', ''2024-02-26'',
     ''2024-02-27'', ''2024-02-28'', ''2024-02-29'', ''2024-03-01'', ''2024-03-04'',
     ''2024-03-05'', ''2024-03-06'', ''2024-03-07'', ''2024-03-08'', ''2024-03-11'']"

definition flat_rows :: "string row list" where
  "flat_rows =
     map (\<lambda>i. \<lparr>Date = example_dates ! i, Close = 5, Volume = 1000\<rparr>) [0..<50]"

definition plateau_rows :: "string row list" where
  "plateau_rows =
     map (\<lambda>i. \<lparr>Date = example_dates ! i,
                Close = (if i < 35 then of_nat i + 1 else 36), Volume = 1000\<rparr>)
         [0..<50]"

definition rising_rows :: "string row list" where
  "rising_rows =
     map (\<lambda>i. \<lparr>Date = example_dates ! i, Close = of_nat i + 1, Volume = 1000\<rparr>) [0..<50]"

definition falling_rows :: "string row list" where
  "falling_rows =
     map (\<lambda>i. \<lparr>Date = example_dates ! i, Close = 100 - of_nat i, Volume = 1000\<rparr>) [0..<50]"

definition short_rows :: "string row list" where
  "short_rows = take 49 rising_rows"

text \<open>A single record whose date is not a date.\<close>

definition undated_rows :: "string row list" where
  "undated_rows = [\<lparr>Date = ''n/a'', Close = 5, Volume = 1000\<rparr>]"

text \<open>The steady rise with the day number as date.\<close>

definition numbered_rows :: "int row list" where
  "numbered_rows =
     map (\<lambda>i. \<lparr>Date = int i, Close = of_nat i + 1, Volume = 1000\<rparr>) [0..<50]"

text \<open>
  Date operations for date strings: the conversion accepts a column of strings of the form
  \<open>YYYY-MM-DD\<close>, which stand for their own timestamps, and raises on the first other
  string; a timestamp compares equal to a date string exactly when both are the same day.
\<close>

definition is_digit :: "char \<Rightarrow> bool" where
  "is_digit c = (48 \<le> (of_char c :: nat) \<and> (of_char c :: nat) \<le> 57)"

definition is_iso_date :: "string \<Rightarrow> bool" where
  "is_iso_date s =
     (length s = 10 \<and> s ! 4 = CHR ''-'' \<and> s ! 7 = CHR ''-''
      \<and> list_all is_digit (take 4 s) \<and> list_all is_digit (take 2 (drop 5 s))
      \<and> list_all is_digit (drop 8 s))"

definition iso_dates :: "(string, string) date_ops" where
  "iso_dates =
     \<lparr>to_datetime =
        (\<lambda>column. case filter (\<lambda>s. \<not> is_iso_date s) column of
                     [] \<Rightarrow> Inr column
                   | s # _ \<Rightarrow> Inl (''Unknown datetime string format, unable to parse: '' @ s)),
      date_eq = (\<lambda>t d. t = d)\<rparr>"

text \<open>
  Date operations for dates given as integers: the conversion reads them as nanoseconds
  since the epoch, and a timestamp never compares equal to an integer.
\<close>

definition epoch_dates :: "(int, int) date_ops" where
  "epoch_dates = \<lparr>to_datetime = (\<lambda>column. Inr column), date_eq = (\<lambda>t d. False)\<rparr>"

section \<open>Example inputs and collaborators\<close>

text \<open>
  An input bundle of the analysis stage around a given price series, the same bundle
  with its success flag false, and a text-generation service that always answers.
\<close>

definition acme_info :: company_info where
  "acme_info = no_info\<lparr>longName := Some ''Acme Corp'', sector := Some ''Industrials'',
                        marketCap := Some (Number 2500000000),
                        trailingPE := Some (Number 18)\<rparr>"

text \<open>The same company with its market capitalisation sent as a text.\<close>

definition worded_info :: company_info where
  "worded_info = acme_info\<lparr>marketCap := Some (Text ''2.5B'')\<rparr>"

definition example_input :: "string row list \<Rightarrow> (string, unit) analysis_input" where
  "example_input rows =
     \<lparr>in_success = Some True, in_symbol = Some ''ACME'', in_period = Some ''1y'',
      in_period_description = Some ''1 Year'',
      in_historical_data = Some \<lparr>hist_data = Some rows, hist_info = Some acme_info\<rparr>,
      in_chart_data = Some rows,
      in_company_info = Some acme_info,
      in_news = Some [\<lparr>title = Some ''Acme opens a new plant''\<rparr>],
      in_fundamentals = None\<rparr>"

text \<open>The bundle around the first 49 records of the rise, with the worded company.\<close>

definition worded_input :: "(string, unit) analysis_input" where
  "worded_input =
     (example_input short_rows)
       \<lparr>in_historical_data := Some \<lparr>hist_data = Some short_rows, hist_info = Some worded_info\<rparr>,
        in_company_info := Some worded_info\<rparr>"

definition failed_input :: "(string, unit) analysis_input" where
  "failed_input = (example_input rising_rows)\<lparr>in_success := Some False\<rparr>"

definition example_ollama :: "prompt \<Rightarrow> string + string" where
  "example_ollama request =
     Inr ''Momentum is weak. **RECOMMENDATION: SELL** **CONFIDENCE: HIGH**''"

text \<open>
  Collaborators of the collection stage: a provider that reports failure, and one that
  succeeds while the news and the fundamentals fetches return nothing.
\<close>

definition failing_provider :: "(string, string, string list) collaborators" where
  "failing_provider =
     \<lparr>TIME_PERIODS = [''1y'' \<mapsto> ''1 Year''],
      fetch_stock_data =
        (\<lambda>symbol period.
           Inr \<lparr>resp_success = False, resp_data = [], resp_info = no_info,
                resp_source = None, resp_error = Some ''No data found for symbol''\<rparr>),
      fetch_news = (\<lambda>symbol. Inr []),
      get_stock_fundamentals = (\<lambda>symbol. Inr []),
      data_insights_ollama = (\<lambda>symbol description historical_data news. Inr ''Complete.'')\<rparr>"

definition working_provider :: "(string, string, string list) collaborators" where
  "working_provider =
     failing_provider\<lparr>fetch_stock_data :=
       (\<lambda>symbol period.
          Inr \<lparr>resp_success = True, resp_data = short_rows, resp_info = acme_info,
               resp_source = Some ''yfinance'', resp_error = None\<rparr>)\<rparr>"

definition example_request :: collector_input where
  "example_request = \<lparr>col_symbol = Some ''ACME'', col_period = Some ''5y''\<rparr>"

section \<open>Facts about the string operations\<close>

lemma str_in_sublist: "str_in p s \<longleftrightarrow> sublist p s"
  unfolding str_in_def
  by (induction s) (auto simp: sublist_Cons_right)

lemma upper_append: "upper (xs @ ys) = upper xs @ upper ys"
  by (simp add: upper_def)

lemma length_upper: "length (upper s) = length s"
  by (simp add: upper_def)

lemma take_prefix_mono: "prefix xs ys \<Longrightarrow> prefix (take n xs) (take n ys)"
  by (auto simp: prefix_def)

lemma rstrip_prefix: "prefix (rev (dropWhile P (rev y))) y"
proof -
  have "y = rev (takeWhile P (rev y) @ dropWhile P (rev y))"
    by simp
  then have "y = rev (dropWhile P (rev y)) @ rev (takeWhile P (rev y))"
    by (simp only: rev_append)
  then show ?thesis
    by (metis prefixI)
qed

text \<open>
  Searching past a prefix in which the pattern starts nowhere shifts the index by the
  length of the prefix.
\<close>

lemma str_find_append_skip:
  "\<forall>j<length pre. \<not> prefix p (drop j (pre @ s)) \<Longrightarrow>
     str_find (pre @ s) p = map_option (\<lambda>i. length pre + i) (str_find s p)"
proof (induction pre)
  case Nil
  then show ?case by (simp add: option.map_ident)
next
  case (Cons c pre)
  from Cons.prems have here: "\<not> prefix p (c # pre @ s)"
    by (metis drop0 length_greater_0_conv list.distinct(1) append_Cons)
  have later: "\<forall>j<length pre. \<not> prefix p (drop j (pre @ s))"
  proof (intro allI impI)
    fix j assume "j < length pre"
    then have "Suc j < length (c # pre)" by simp
    with Cons.prems have "\<not> prefix p (drop (Suc j) ((c # pre) @ s))" by blast
    then show "\<not> prefix p (drop j (pre @ s))" by simp
  qed
  show ?case
    using here Cons.IH [OF later] by (simp add: option.map_comp comp_def)
qed

text \<open>
  A pattern that does not occur in \<open>pre\<close> cannot start inside \<open>pre\<close> and run over its end
  when the next character is one the pattern does not contain.
\<close>

lemma no_straddle:
  assumes "\<not> sublist p pre" and "c \<notin> set p"
  shows "\<forall>j<length pre. \<not> prefix p (drop j (pre @ c # s))"
proof (intro allI impI notI)
  fix j assume j: "j < length pre" and pre: "prefix p (drop j (pre @ c # s))"
  from j pre have "prefix p (drop j pre @ c # s)" by simp
  then consider "prefix p (drop j pre)"
    | us where "p = drop j pre @ us" "prefix us (c # s)"
    by (auto simp: prefix_append)
  then show False
  proof cases
    case 1
    then have "sublist p (drop j pre)" by (rule prefix_imp_sublist)
    moreover have "sublist (drop j pre) pre" by (rule sublist_drop)
    ultimately have "sublist p pre" by (rule sublist_order.order_trans)
    with assms(1) show False by contradiction
  next
    case 2
    show False
    proof (cases us)
      case Nil
      with 2 have "p = drop j pre" by simp
      then have "sublist p pre" by simp
      with assms(1) show False by contradiction
    next
      case (Cons u us')
      with 2 have "u = c" by simp
      with 2 Cons have "c \<in> set p" by simp
      with assms(2) show False by contradiction
    qed
  qed
qed

section \<open>Facts about the two extraction loops\<close>

lemma rec_loop_windows:
  "rec_loop a (upper a) ps r =
     (case filter has_rec_keyword
             (map (rec_window a) (filter (\<lambda>p. str_in (upper p) (upper a)) ps)) of
        [] \<Rightarrow> r
      | w # _ \<Rightarrow> if str_in ''BUY'' w then ''BUY''
                 else if str_in ''SELL'' w then ''SELL'' else ''HOLD'')"
  by (induction ps)
     (auto simp: rec_window_def has_rec_keyword_def str_in_def Let_def
           split: option.splits)

lemma conf_loop_windows:
  "conf_loop a (upper a) ps r =
     (case filter has_conf_keyword
             (map (conf_window a) (filter (\<lambda>p. str_in (upper p) (upper a)) ps)) of
        [] \<Rightarrow> r
      | w # _ \<Rightarrow> if str_in ''HIGH'' w then ''HIGH''
                 else if str_in ''MEDIUM'' w then ''MEDIUM'' else ''LOW'')"
  by (induction ps)
     (auto simp: conf_window_def has_conf_keyword_def str_in_def Let_def
           split: option.splits)

lemma rec_loop_range:
  "r \<in> {''BUY'', ''SELL'', ''HOLD''} \<Longrightarrow>
     rec_loop a au ps r \<in> {''BUY'', ''SELL'', ''HOLD''}"
  by (induction ps) (auto simp: Let_def split: option.splits)

lemma conf_loop_range:
  "r \<in> {''HIGH'', ''MEDIUM'', ''LOW''} \<Longrightarrow>
     conf_loop a au ps r \<in> {''HIGH'', ''MEDIUM'', ''LOW''}"
  by (induction ps) (auto simp: Let_def split: option.splits)

lemma rec_loop_default:
  "\<forall>p\<in>set ps. str_in (upper p) (upper a) \<longrightarrow> \<not> has_rec_keyword (rec_window a p) \<Longrightarrow>
     rec_loop a (upper a) ps r = r"
  by (induction ps)
     (auto simp: rec_window_def has_rec_keyword_def str_in_def Let_def
           split: option.splits)

lemma conf_loop_default:
  "\<forall>p\<in>set ps. str_in (upper p) (upper a) \<longrightarrow> \<not> has_conf_keyword (conf_window a p) \<Longrightarrow>
     conf_loop a (upper a) ps r = r"
  by (induction ps)
     (auto simp: conf_window_def has_conf_keyword_def str_in_def Let_def
           split: option.splits)

lemma rec_pattern_has_word:
  "p \<in> set rec_patterns \<Longrightarrow> str_in (upper p) s \<Longrightarrow> str_in ''RECOMMENDATION'' s"
proof -
  assume p: "p \<in> set rec_patterns" and occ: "str_in (upper p) s"
  from p have "sublist ''RECOMMENDATION'' (upper p)"
    by (auto simp: rec_patterns_def upper_def upper_char_def sublist_Cons_right)
  moreover from occ have "sublist (upper p) s"
    by (simp add: str_in_sublist)
  ultimately have "sublist ''RECOMMENDATION'' s"
    by (rule sublist_order.order_trans)
  then show ?thesis
    by (simp add: str_in_sublist)
qed

lemma conf_pattern_has_word:
  "p \<in> set conf_patterns \<Longrightarrow> str_in (upper p) s \<Longrightarrow> str_in ''CONFIDENCE'' s"
proof -
  assume p: "p \<in> set conf_patterns" and occ: "str_in (upper p) s"
  from p have "sublist ''CONFIDENCE'' (upper p)"
    by (auto simp: conf_patterns_def upper_def upper_char_def sublist_Cons_right)
  moreover from occ have "sublist (upper p) s"
    by (simp add: str_in_sublist)
  ultimately have "sublist ''CONFIDENCE'' s"
    by (rule sublist_order.order_trans)
  then show ?thesis
    by (simp add: str_in_sublist)
qed

section \<open>Facts about the columns\<close>

lemma foldl_f_add_Fin: "foldl f_add (Fin a) (map Fin ys) = Fin (a + sum_list ys)"
  by (induction ys arbitrary: a) (simp_all add: add.assoc)

lemma no_nan_map_Fin: "\<not> list_ex isna (map Fin ys)"
  by (auto simp: list_ex_iff isna_def)

lemma window_mean_Fin:
  "ys \<noteq> [] \<Longrightarrow> window_mean (map Fin ys) = Fin (sum_list ys / of_nat (length ys))"
  by (simp add: window_mean_def no_nan_map_Fin foldl_f_add_Fin)

lemma last_rolling_mean:
  assumes "0 < w" and "w \<le> length xs"
  shows "last (rolling_mean w xs) = window_mean (drop (length xs - w) xs)"
proof -
  from assms have n: "0 < length xs" by linarith
  then have ne: "[0..<length xs] \<noteq> []" by simp
  have "last (rolling_mean w xs)
          = (if length xs - 1 + 1 < w then NaN
             else window_mean (take w (drop (length xs - 1 + 1 - w) xs)))"
    unfolding rolling_mean_def using ne n by (simp add: last_map)
  with assms n show ?thesis by simp
qed

lemma slice_as_map: "take m (drop k xs) = map (\<lambda>i. xs ! i) [k..<min (k + m) (length xs)]"
proof -
  have "take m (drop k xs) = take m (drop k (map (\<lambda>i. xs ! i) [0..<length xs]))"
    by (simp add: map_nth)
  also have "\<dots> = map (\<lambda>i. xs ! i) (take m (drop k [0..<length xs]))"
    by (simp add: take_map drop_map)
  also have "take m (drop k [0..<length xs]) = [k..<min (k + m) (length xs)]"
    by (cases "k + m \<le> length xs") (simp_all add: min_def)
  finally show ?thesis .
qed

lemma sum_list_slice:
  fixes xs :: "rat list"
  shows "sum_list (take m (drop k xs)) = (\<Sum>i = k..<min (k + m) (length xs). xs ! i)"
  by (simp add: slice_as_map interv_sum_list_conv_sum_set_nat)

lemma diff_Fin:
  "diff (map Fin cs) =
     map (\<lambda>i. if i = 0 then NaN else Fin (cs ! i - cs ! (i - 1))) [0..<length cs]"
  by (simp add: diff_def f_sub_def)

lemma series_where_map:
  "series_where xs (map P xs) other = map (\<lambda>x. if P x then x else other) xs"
  by (induction xs) (simp_all add: series_where_def)

lemma gain_Fin: "gain (map Fin cs) = map Fin (rises cs)"
  by (simp add: gain_def Let_def series_where_map diff_Fin rises_def max_def)

lemma loss_Fin: "loss (map Fin cs) = map Fin (falls cs)"
  by (simp add: loss_def Let_def series_where_map diff_Fin falls_def max_def f_lt_def)

lemma length_rises [simp]: "length (rises cs) = length cs"
  by (simp add: rises_def)

lemma length_falls [simp]: "length (falls cs) = length cs"
  by (simp add: falls_def)

lemma last_rolling_mean_Fin:
  assumes "0 < w" and "w \<le> length ys"
  shows "last (rolling_mean w (map Fin ys))
           = Fin (sum_list (drop (length ys - w) ys) / of_nat w)"
proof -
  have "last (rolling_mean w (map Fin ys)) = window_mean (map Fin (drop (length ys - w) ys))"
    using assms by (simp add: last_rolling_mean drop_map)
  moreover have "drop (length ys - w) ys \<noteq> []" using assms by simp
  moreover have "length (drop (length ys - w) ys) = w" using assms by simp
  ultimately show ?thesis by (simp add: window_mean_Fin)
qed

lemma length_rolling_mean [simp]: "length (rolling_mean w xs) = length xs"
  by (simp add: rolling_mean_def)

lemma last_series_div:
  assumes "length a = length b" and "a \<noteq> []"
  shows "last (series_div a b) = f_div (last a) (last b)"
proof -
  from assms have b: "b \<noteq> []" by auto
  from assms b show ?thesis
    by (simp add: series_div_def last_conv_nth)
qed

lemma last_avg_gain:
  "14 \<le> length cs \<Longrightarrow>
     last (avg_gain (map Fin cs)) = Fin (sum_list (drop (length cs - 14) (rises cs)) / 14)"
  using last_rolling_mean_Fin [of 14 "rises cs"] by (simp add: avg_gain_def gain_Fin)

lemma last_avg_loss:
  "14 \<le> length cs \<Longrightarrow>
     last (avg_loss (map Fin cs)) = Fin (sum_list (drop (length cs - 14) (falls cs)) / 14)"
  using last_rolling_mean_Fin [of 14 "falls cs"] by (simp add: avg_loss_def loss_Fin)

lemma last_RSI:
  assumes "14 \<le> length cs"
  shows "last (RSI (map Fin cs))
           = f_sub (Fin 100) (f_div (Fin 100) (f_add (Fin 1)
               (f_div (Fin (sum_list (drop (length cs - 14) (rises cs)) / 14))
                      (Fin (sum_list (drop (length cs - 14) (falls cs)) / 14)))))"
proof -
  from assms have ne: "cs \<noteq> []" by auto
  have len: "length (avg_gain (map Fin cs)) = length (avg_loss (map Fin cs))"
    by (simp add: avg_gain_def avg_loss_def gain_Fin loss_Fin)
  have ane: "avg_gain (map Fin cs) \<noteq> []"
    using ne by (simp add: avg_gain_def gain_Fin rolling_mean_def)
  have r: "last (rs (map Fin cs))
             = f_div (last (avg_gain (map Fin cs))) (last (avg_loss (map Fin cs)))"
    unfolding rs_def using len ane by (rule last_series_div)
  have rne: "rs (map Fin cs) \<noteq> []"
    using ane len by (auto simp: rs_def series_div_def)
  show ?thesis
    unfolding RSI_def using rne
    by (simp add: last_map r last_avg_gain [OF assms] last_avg_loss [OF assms])
qed

lemma sum_list_nonneg_drop:
  fixes xs :: "rat list"
  assumes "\<forall>x\<in>set xs. 0 \<le> x"
  shows "0 \<le> sum_list (drop k xs)"
  using assms by (meson in_set_dropD sum_list_nonneg)

lemma rises_nonneg: "\<forall>x\<in>set (rises cs). 0 \<le> x"
  by (auto simp: rises_def)

lemma falls_nonneg: "\<forall>x\<in>set (falls cs). 0 \<le> x"
  by (auto simp: falls_def)

text \<open>The value of the latest RSI by cases on the two sums.\<close>

lemma latest_rsi_cases:
  assumes len: "14 \<le> length cs"
  defines "G \<equiv> sum_list (drop (length cs - 14) (rises cs))"
    and "L \<equiv> sum_list (drop (length cs - 14) (falls cs))"
  shows "last (RSI (map Fin cs)) =
           (if L = 0 then (if G = 0 then NaN else Fin 100)
            else Fin (100 - 100 / (1 + G / L)))"
proof -
  have G0: "0 \<le> G" unfolding G_def by (rule sum_list_nonneg_drop [OF rises_nonneg])
  have L0: "0 \<le> L" unfolding L_def by (rule sum_list_nonneg_drop [OF falls_nonneg])
  have eq: "last (RSI (map Fin cs))
           = f_sub (Fin 100) (f_div (Fin 100) (f_add (Fin 1) (f_div (Fin (G / 14)) (Fin (L / 14)))))"
    unfolding G_def L_def by (rule last_RSI [OF len])
  show ?thesis
  proof (cases "L = 0")
    case True
    with G0 show ?thesis by (auto simp: eq f_sub_def)
  next
    case False
    with L0 have Lp: "0 < L" by simp
    with G0 have "0 \<le> G / L" by simp
    then have "1 + G / L \<noteq> 0" by linarith
    with False show ?thesis by (simp add: eq f_sub_def)
  qed
qed

lemma rsi_value_bounds:
  fixes G L :: rat
  assumes "0 \<le> G" and "0 < L"
  shows "0 \<le> 100 - 100 / (1 + G / L) \<and> 100 - 100 / (1 + G / L) < 100"
proof -
  from assms have "0 \<le> G / L" by simp
  then have one: "1 \<le> 1 + G / L" by simp
  then have pos: "0 < 1 + G / L" by linarith
  from one pos have "100 / (1 + G / L) \<le> 100"
    by (simp add: divide_le_eq)
  moreover from pos have "0 < 100 / (1 + G / L)" by simp
  ultimately show ?thesis by simp
qed

lemma max_zero_diff: "max 0 (a - b) = 0 \<longleftrightarrow> a \<le> (b :: rat)"
  by (auto simp: max_def)

lemma drop_map_upt: "drop k (map f [0..<n]) = map f [k..<n]"
  by (simp add: drop_map)

lemma sum_rises_last14:
  assumes "15 \<le> length cs"
  shows "sum_list (drop (length cs - 14) (rises cs))
           = (\<Sum>j = length cs - 14..<length cs. max 0 (cs ! j - cs ! (j - 1)))"
proof -
  have "drop (length cs - 14) (rises cs)
          = map (\<lambda>i. if i = 0 then 0 else max 0 (cs ! i - cs ! (i - 1)))
              [length cs - 14..<length cs]"
    by (simp add: rises_def drop_map)
  also have "\<dots> = map (\<lambda>i. max 0 (cs ! i - cs ! (i - 1))) [length cs - 14..<length cs]"
    using assms by (intro map_cong) auto
  finally show ?thesis
    by (simp add: interv_sum_list_conv_sum_set_nat)
qed

lemma sum_falls_last14:
  assumes "15 \<le> length cs"
  shows "sum_list (drop (length cs - 14) (falls cs))
           = (\<Sum>j = length cs - 14..<length cs. max 0 (cs ! (j - 1) - cs ! j))"
proof -
  have "drop (length cs - 14) (falls cs)
          = map (\<lambda>i. if i = 0 then 0 else max 0 (cs ! (i - 1) - cs ! i))
              [length cs - 14..<length cs]"
    by (simp add: falls_def drop_map)
  also have "\<dots> = map (\<lambda>i. max 0 (cs ! (i - 1) - cs ! i)) [length cs - 14..<length cs]"
    using assms by (intro map_cong) auto
  finally show ?thesis
    by (simp add: interv_sum_list_conv_sum_set_nat)
qed

lemma no_rise_iff:
  assumes "15 \<le> length (cs :: rat list)"
  shows "sum_list (drop (length cs - 14) (rises cs)) = 0
           \<longleftrightarrow> (\<forall>j. length cs - 14 \<le> j \<and> j < length cs \<longrightarrow> cs ! j \<le> cs ! (j - 1))"
proof -
  have "(\<Sum>j = length cs - 14..<length cs. max 0 (cs ! j - cs ! (j - 1))) = 0
          \<longleftrightarrow> (\<forall>j\<in>{length cs - 14..<length cs}. max 0 (cs ! j - cs ! (j - 1)) = 0)"
    by (rule sum_nonneg_eq_0_iff) simp_all
  also have "\<dots> \<longleftrightarrow> (\<forall>j. length cs - 14 \<le> j \<and> j < length cs \<longrightarrow> cs ! j \<le> cs ! (j - 1))"
    by (simp add: max_zero_diff Ball_def)
  finally show ?thesis
    by (simp only: sum_rises_last14 [OF assms])
qed

lemma no_fall_iff:
  assumes "15 \<le> length (cs :: rat list)"
  shows "sum_list (drop (length cs - 14) (falls cs)) = 0
           \<longleftrightarrow> (\<forall>j. length cs - 14 \<le> j \<and> j < length cs \<longrightarrow> cs ! (j - 1) \<le> cs ! j)"
proof -
  have "(\<Sum>j = length cs - 14..<length cs. max 0 (cs ! (j - 1) - cs ! j)) = 0
          \<longleftrightarrow> (\<forall>j\<in>{length cs - 14..<length cs}. max 0 (cs ! (j - 1) - cs ! j) = 0)"
    by (rule sum_nonneg_eq_0_iff) simp_all
  also have "\<dots> \<longleftrightarrow> (\<forall>j. length cs - 14 \<le> j \<and> j < length cs \<longrightarrow> cs ! (j - 1) \<le> cs ! j)"
    by (simp add: max_zero_diff Ball_def)
  finally show ?thesis
    by (simp only: sum_falls_last14 [OF assms])
qed

text \<open>What \<open>compute_technical\<close> returns on the data frame of a series.\<close>

lemma compute_technical_short:
  "length rows < 50 \<Longrightarrow>
     compute_technical (DataFrame rows)
       = (DataFrame rows, NoIndicators ''Not enough data points for technical analysis'')"
  by (simp add: compute_technical_def len_df_def DataFrame_def)

lemma compute_technical_rsi:
  "50 \<le> length rows \<Longrightarrow>
     rsi (snd (compute_technical (DataFrame rows))) = last (RSI (map Fin (map Close rows)))"
  by (simp add: compute_technical_def len_df_def DataFrame_def Let_def comp_def)

text \<open>What \<open>compute_technical\<close> returns on any data frame, by its number of rows.\<close>

lemma compute_technical_few:
  "len_df df < 50 \<Longrightarrow>
     compute_technical df
       = (df, NoIndicators ''Not enough data points for technical analysis'')"
  by (simp add: compute_technical_def)

lemma compute_technical_columns:
  "50 \<le> len_df df \<Longrightarrow>
     df_MA20 (fst (compute_technical df)) = Some (rolling_mean 20 (df_Close df))
     \<and> df_MA50 (fst (compute_technical df)) = Some (rolling_mean 50 (df_Close df))
     \<and> df_Date (fst (compute_technical df)) = df_Date df"
  by (simp add: compute_technical_def Let_def)

text \<open>The indicators depend on the closes alone, not on the dates.\<close>

lemma compute_technical_closes:
  "df_Close a = df_Close b \<Longrightarrow> snd (compute_technical a) = snd (compute_technical b)"
  by (simp add: compute_technical_def len_df_def Let_def)

text \<open>The converted frame of a series.\<close>

lemma convert_Date_DataFrame:
  assumes "convert_Date to_dt (DataFrame rows) = Inr converted"
  shows "to_dt (map Date rows) = Inr (df_Date converted)
         \<and> df_Close converted = map Fin (map Close rows)
         \<and> df_Close converted = df_Close (DataFrame rows)
         \<and> len_df converted = length rows
         \<and> df_MA20 converted = None \<and> df_MA50 converted = None"
  using assms
  by (auto simp: convert_Date_def DataFrame_def len_df_def comp_def split: sum.splits)

lemma convert_Date_fails:
  "to_dt (map Date rows) = Inl e \<Longrightarrow> convert_Date to_dt (DataFrame rows) = Inl e"
  by (simp add: convert_Date_def DataFrame_def)

lemma convert_Date_succeeds:
  "to_dt (map Date rows) = Inr ts \<Longrightarrow> \<exists>c. convert_Date to_dt (DataFrame rows) = Inr c"
  by (simp add: convert_Date_def DataFrame_def)

text \<open>The chart data.\<close>

lemma date_index_none:
  assumes "\<forall>j<length dates. \<not> eq (dates ! j) d"
  shows "date_index eq dates d = []"
  using assms by (simp add: date_index_def filter_empty_conv)

lemma date_index_first:
  assumes k: "k < length dates" and m: "eq (dates ! k) d"
    and f: "\<forall>j<k. \<not> eq (dates ! j) d"
  shows "\<exists>rest. date_index eq dates d = k # rest"
proof -
  from k have "[0..<length dates] = [0..<k + (length dates - k)]" by simp
  also have "\<dots> = [0..<k] @ [k..<k + (length dates - k)]"
    by (rule upt_add_eq_append) simp
  also from k have "[k..<k + (length dates - k)] = k # [Suc k..<length dates]"
    by (simp add: upt_conv_Cons)
  finally have "[0..<length dates] = [0..<k] @ k # [Suc k..<length dates]" .
  moreover from f have "filter (\<lambda>i. eq (dates ! i) d) [0..<k] = []"
    by (simp add: filter_empty_conv)
  ultimately show ?thesis
    using m by (simp add: date_index_def)
qed

lemma ma_field_none:
  assumes "\<forall>j<length dates. \<not> eq (dates ! j) d"
  shows "ma_field eq column dates d = None"
  using assms by (simp add: ma_field_def date_index_none split: option.splits)

lemma ma_field_first:
  assumes "k < length dates" and "eq (dates ! k) d" and "\<forall>j<k. \<not> eq (dates ! j) d"
  shows "ma_field eq column dates d
           = (case column of None \<Rightarrow> None
              | Some ma \<Rightarrow> if isna (ma ! k) then None else Some (ma ! k))"
proof -
  from date_index_first [of k dates eq d] assms
  obtain rest where "date_index eq dates d = k # rest"
    by blast
  then show ?thesis by (simp add: ma_field_def split: option.splits)
qed

lemma rolling_mean_nth_Fin:
  assumes "0 < w" and "i < length cs"
  shows "rolling_mean w (map Fin cs) ! i
           = (if i + 1 < w then NaN
              else Fin ((\<Sum>j = i + 1 - w..<i + 1. cs ! j) / of_nat w))"
proof (cases "i + 1 < w")
  case True
  with assms show ?thesis by (simp add: rolling_mean_def)
next
  case False
  let ?ys = "take w (drop (i + 1 - w) cs)"
  from False assms have len: "length ?ys = w" by simp
  with assms have ne: "?ys \<noteq> []" by auto
  from False assms have m: "min (i + 1 - w + w) (length cs) = i + 1" by simp
  have s: "sum_list ?ys = (\<Sum>j = i + 1 - w..<i + 1. cs ! j)"
    by (simp only: sum_list_slice m)
  have "rolling_mean w (map Fin cs) ! i = window_mean (map Fin ?ys)"
    using False assms by (simp add: rolling_mean_def take_map drop_map)
  also have "\<dots> = Fin ((\<Sum>j = i + 1 - w..<i + 1. cs ! j) / of_nat w)"
    by (simp only: window_mean_Fin [OF ne] len s)
  finally show ?thesis using False by simp
qed

lemma length_prepare_chart_data: "length (prepare_chart_data eq df rows) = length rows"
  by (simp add: prepare_chart_data_def)

lemma prepare_chart_data_nth:
  "i < length rows \<Longrightarrow>
     prepare_chart_data eq df rows ! i
       = \<lparr>date = Date (rows ! i), close = Close (rows ! i), volume = Volume (rows ! i),
          ma20 = ma_field eq (df_MA20 df) (df_Date df) (Date (rows ! i)),
          ma50 = ma_field eq (df_MA50 df) (df_Date df) (Date (rows ! i))\<rparr>"
  by (simp add: prepare_chart_data_def)

text \<open>The analysis stage, branch by branch.\<close>

lemma analysis_invalid:
  "\<not> get_or (in_success input_data) False \<Longrightarrow>
     AnalysisAgent_process pd call_ollama input_data = (Inl ''Invalid input data'', [])"
  by (simp add: AnalysisAgent_process_def)

lemma analysis_no_data:
  "get_or (in_success input_data) False \<Longrightarrow> select_historical_data input_data = [] \<Longrightarrow>
     AnalysisAgent_process pd call_ollama input_data
       = (Inl ''No historical data available for analysis'', [])"
  by (simp add: AnalysisAgent_process_def Let_def)

lemma analysis_dates_fail:
  assumes "get_or (in_success input_data) False"
    and "select_historical_data input_data \<noteq> []"
    and "convert_Date (to_datetime pd) (DataFrame (select_historical_data input_data)) = Inl e"
  shows "AnalysisAgent_process pd call_ollama input_data = (Inl e, [])"
  using assms by (simp add: AnalysisAgent_process_def Let_def)

lemma analysis_prompt_fails:
  assumes "get_or (in_success input_data) False"
    and "select_historical_data input_data \<noteq> []"
    and "convert_Date (to_datetime pd) (DataFrame (select_historical_data input_data))
           = Inr converted"
    and "render_prompt (get_or (in_symbol input_data) [])
           (get_or (in_period_description input_data) [])
           (select_company_info input_data) (get_or (in_news input_data) [])
           (fst (compute_technical converted)) (snd (compute_technical converted)) = Inl e"
  shows "AnalysisAgent_process pd call_ollama input_data = (Inl e, [])"
  using assms
  by (cases "compute_technical converted") (simp add: AnalysisAgent_process_def Let_def)

lemma analysis_after_prompt:
  assumes "get_or (in_success input_data) False"
    and "select_historical_data input_data \<noteq> []"
    and "convert_Date (to_datetime pd) (DataFrame (select_historical_data input_data))
           = Inr converted"
    and "render_prompt (get_or (in_symbol input_data) [])
           (get_or (in_period_description input_data) [])
           (select_company_info input_data) (get_or (in_news input_data) [])
           (fst (compute_technical converted)) (snd (compute_technical converted))
         = Inr request"
  shows "AnalysisAgent_process pd call_ollama input_data =
           (case call_ollama request of
              Inl e \<Rightarrow> (Inl e, [CallOllama])
            | Inr analysis \<Rightarrow>
                (Inr \<lparr>res_symbol = get_or (in_symbol input_data) [],
                      res_period = in_period input_data,
                      res_period_description = get_or (in_period_description input_data) [],
                      res_company_info = select_company_info input_data,
                      res_analysis = analysis,
                      res_recommendation = extract_recommendation analysis,
                      res_confidence = extract_confidence analysis,
                      res_technical_indicators = snd (compute_technical converted),
                      res_chart_data =
                        prepare_chart_data (date_eq pd) (fst (compute_technical converted))
                          (select_historical_data input_data)\<rparr>,
                 [CallOllama]))"
  using assms
  by (cases "compute_technical converted")
     (simp add: AnalysisAgent_process_def Let_def split: sum.splits)

text \<open>The prompt is rendered exactly when no figure is a text that is not empty.\<close>

lemma figure_lines:
  "(\<exists>x. market_cap_line v = Inr x) \<longleftrightarrow> figure_ok v"
  "(\<exists>x. pe_line v = Inr x) \<longleftrightarrow> figure_ok v"
  "(\<exists>x. dividend_line v = Inr x) \<longleftrightarrow> figure_ok v"
  by (auto simp: market_cap_line_def pe_line_def dividend_line_def figure_ok_def
        split: option.splits figure.splits)

lemma render_prompt_succeeds:
  assumes "figures_ok company_info"
  shows "\<exists>request. render_prompt symbol period company_info news df technical_analysis
                     = Inr request"
proof -
  from assms obtain mc pe dv where
    "market_cap_line (marketCap company_info) = Inr mc"
    "pe_line (trailingPE company_info) = Inr pe"
    "dividend_line (dividendYield company_info) = Inr dv"
    unfolding figures_ok_def using figure_lines by metis
  then show ?thesis by (simp add: render_prompt_def)
qed

lemma render_prompt_fails:
  assumes "\<not> figures_ok company_info"
  shows "\<exists>e. render_prompt symbol period company_info news df technical_analysis = Inl e"
proof (cases "render_prompt symbol period company_info news df technical_analysis")
  case (Inl e)
  then show ?thesis by blast
next
  case (Inr request)
  then have "(\<exists>x. market_cap_line (marketCap company_info) = Inr x)
      \<and> (\<exists>x. pe_line (trailingPE company_info) = Inr x)
      \<and> (\<exists>x. dividend_line (dividendYield company_info) = Inr x)"
    by (auto simp: render_prompt_def split: sum.splits)
  with assms show ?thesis by (simp add: figure_lines figures_ok_def)
qed

lemma render_prompt_technical:
  "render_prompt symbol period company_info news df technical_analysis = Inr request \<Longrightarrow>
     technical_lines request = technical_analysis"
  by (auto simp: render_prompt_def split: sum.splits)

lemma analysis_result_fields:
  "AnalysisAgent_process pd call_ollama input_data = (Inr res, calls) \<Longrightarrow>
     res_recommendation res = extract_recommendation (res_analysis res)
     \<and> res_confidence res = extract_confidence (res_analysis res)"
  by (auto simp: AnalysisAgent_process_def Let_def split: if_splits prod.splits sum.splits)

lemma success_flag: "get_or s False \<longleftrightarrow> s = Some True"
  by (cases s) (simp_all add: get_or_def)

lemma select_historical_data_empty:
  "select_historical_data input_data = [] \<longleftrightarrow>
     get_or (hist_data (get_or (in_historical_data input_data)
                          \<lparr>hist_data = None, hist_info = None\<rparr>)) [] = []
     \<and> get_or (in_chart_data input_data) [] = []"
  by (auto simp: select_historical_data_def Let_def)

text \<open>The latest RSI in terms of the closes.\<close>

lemma latest_rsi_rising:
  assumes n: "15 \<le> length cs"
    and up: "\<forall>j. length cs - 14 \<le> j \<and> j < length cs \<longrightarrow> cs ! (j - 1) < cs ! j"
  shows "last (RSI (map Fin cs)) = Fin 100"
proof -
  from up have "\<forall>j. length cs - 14 \<le> j \<and> j < length cs \<longrightarrow> cs ! (j - 1) \<le> cs ! j"
    by (simp add: less_imp_le)
  then have L: "sum_list (drop (length cs - 14) (falls cs)) = 0"
    by (simp only: no_fall_iff [OF n])
  from n have "length cs - 14 \<le> length cs - 1 \<and> length cs - 1 < length cs" by arith
  with up have "cs ! (length cs - 1 - 1) < cs ! (length cs - 1)" by blast
  then have "\<not> cs ! (length cs - 1) \<le> cs ! (length cs - 1 - 1)" by simp
  with \<open>length cs - 14 \<le> length cs - 1 \<and> length cs - 1 < length cs\<close>
  have "\<not> (\<forall>j. length cs - 14 \<le> j \<and> j < length cs \<longrightarrow> cs ! j \<le> cs ! (j - 1))"
    by blast
  then have G: "sum_list (drop (length cs - 14) (rises cs)) \<noteq> 0"
    using no_rise_iff [OF n] by blast
  from n have "14 \<le> length cs" by simp
  from latest_rsi_cases [OF this] L G show ?thesis by simp
qed

lemma latest_rsi_falling:
  assumes n: "15 \<le> length cs"
    and down: "\<forall>j. length cs - 14 \<le> j \<and> j < length cs \<longrightarrow> cs ! j < cs ! (j - 1)"
  shows "last (RSI (map Fin cs)) = Fin 0"
proof -
  from down have "\<forall>j. length cs - 14 \<le> j \<and> j < length cs \<longrightarrow> cs ! j \<le> cs ! (j - 1)"
    by (simp add: less_imp_le)
  then have G: "sum_list (drop (length cs - 14) (rises cs)) = 0"
    by (simp only: no_rise_iff [OF n])
  from n have last: "length cs - 14 \<le> length cs - 1 \<and> length cs - 1 < length cs" by arith
  with down have "cs ! (length cs - 1) < cs ! (length cs - 1 - 1)" by blast
  then have "\<not> cs ! (length cs - 1 - 1) \<le> cs ! (length cs - 1)" by simp
  with last
  have "\<not> (\<forall>j. length cs - 14 \<le> j \<and> j < length cs \<longrightarrow> cs ! (j - 1) \<le> cs ! j)"
    by blast
  then have L: "sum_list (drop (length cs - 14) (falls cs)) \<noteq> 0"
    using no_fall_iff [OF n] by blast
  from n have "14 \<le> length cs" by simp
  from latest_rsi_cases [OF this] L G show ?thesis by simp
qed

lemma latest_rsi_nan_iff:
  assumes n: "15 \<le> length cs"
  shows "last (RSI (map Fin cs)) = NaN
           \<longleftrightarrow> (\<forall>j. length cs - 14 \<le> j \<and> j < length cs \<longrightarrow> cs ! (j - 1) = cs ! j)"
proof -
  from n have "14 \<le> length cs" by simp
  from latest_rsi_cases [OF this]
  have "last (RSI (map Fin cs)) = NaN
          \<longleftrightarrow> sum_list (drop (length cs - 14) (falls cs)) = 0
              \<and> sum_list (drop (length cs - 14) (rises cs)) = 0"
    by (simp split: if_splits)
  also have "\<dots> \<longleftrightarrow> (\<forall>j. length cs - 14 \<le> j \<and> j < length cs \<longrightarrow> cs ! (j - 1) = cs ! j)"
    unfolding no_fall_iff [OF n] no_rise_iff [OF n] by (auto intro: antisym)
  finally show ?thesis .
qed

lemma latest_rsi_range:
  assumes n: "14 \<le> length cs"
  shows "last (RSI (map Fin cs)) = NaN
           \<or> (\<exists>v. last (RSI (map Fin cs)) = Fin v \<and> 0 \<le> v \<and> v \<le> 100)"
proof -
  let ?G = "sum_list (drop (length cs - 14) (rises cs))"
  let ?L = "sum_list (drop (length cs - 14) (falls cs))"
  have G0: "0 \<le> ?G" by (rule sum_list_nonneg_drop [OF rises_nonneg])
  have L0: "0 \<le> ?L" by (rule sum_list_nonneg_drop [OF falls_nonneg])
  show ?thesis
  proof (cases "?L = 0")
    case True
    with latest_rsi_cases [OF n] show ?thesis by simp
  next
    case False
    with L0 have "0 < ?L" by simp
    with G0 have "0 \<le> 100 - 100 / (1 + ?G / ?L) \<and> 100 - 100 / (1 + ?G / ?L) < 100"
      by (rule rsi_value_bounds)
    with False latest_rsi_cases [OF n] show ?thesis by simp
  qed
qed

text \<open>The last fifteen closes, pair by pair, and the last fourteen changes.\<close>

lemma last_pairs:
  assumes "15 \<le> length rows"
  shows "(\<forall>j. length (map Close rows) - 14 \<le> j \<and> j < length (map Close rows) \<longrightarrow>
             R (map Close rows ! (j - 1)) (map Close rows ! j))
         \<longleftrightarrow> (\<forall>i. length rows - 15 \<le> i \<and> i + 1 < length rows \<longrightarrow>
                R (Close (rows ! i)) (Close (rows ! (i + 1))))"
proof
  assume a: "\<forall>j. length (map Close rows) - 14 \<le> j \<and> j < length (map Close rows) \<longrightarrow>
             R (map Close rows ! (j - 1)) (map Close rows ! j)"
  show "\<forall>i. length rows - 15 \<le> i \<and> i + 1 < length rows \<longrightarrow>
                R (Close (rows ! i)) (Close (rows ! (i + 1)))"
  proof (intro allI impI)
    fix i assume i: "length rows - 15 \<le> i \<and> i + 1 < length rows"
    with assms have "length (map Close rows) - 14 \<le> i + 1 \<and> i + 1 < length (map Close rows)"
      by simp arith
    with a have "R (map Close rows ! (i + 1 - 1)) (map Close rows ! (i + 1))" by blast
    with i show "R (Close (rows ! i)) (Close (rows ! (i + 1)))" by simp
  qed
next
  assume a: "\<forall>i. length rows - 15 \<le> i \<and> i + 1 < length rows \<longrightarrow>
                R (Close (rows ! i)) (Close (rows ! (i + 1)))"
  show "\<forall>j. length (map Close rows) - 14 \<le> j \<and> j < length (map Close rows) \<longrightarrow>
             R (map Close rows ! (j - 1)) (map Close rows ! j)"
  proof (intro allI impI)
    fix j assume j: "length (map Close rows) - 14 \<le> j \<and> j < length (map Close rows)"
    with assms have j1: "length rows - 15 \<le> j - 1 \<and> j - 1 + 1 < length rows" and "0 < j"
      by simp_all arith+
    with a have "R (Close (rows ! (j - 1))) (Close (rows ! (j - 1 + 1)))" by blast
    moreover from j have "j - 1 < length rows" and "j < length rows" by auto
    ultimately show "R (map Close rows ! (j - 1)) (map Close rows ! j)"
      using \<open>0 < j\<close> by (simp only: nth_map) simp
  qed
qed

lemma df_Close_DataFrame: "df_Close (DataFrame rows) = map Fin (map Close rows)"
  by (simp add: DataFrame_def comp_def)

text \<open>The example series.\<close>

lemma length_examples:
  "length flat_rows = 50" "length plateau_rows = 50" "length rising_rows = 50"
  "length falling_rows = 50" "length short_rows = 49"
  by (simp_all add: flat_rows_def plateau_rows_def rising_rows_def falling_rows_def
        short_rows_def)

lemma Close_rising: "i < 50 \<Longrightarrow> Close (rising_rows ! i) = of_nat i + 1"
  by (simp add: rising_rows_def)

lemma Close_falling: "i < 50 \<Longrightarrow> Close (falling_rows ! i) = 100 - of_nat i"
  by (simp add: falling_rows_def)

lemma Close_flat: "i < 50 \<Longrightarrow> Close (flat_rows ! i) = 5"
  by (simp add: flat_rows_def)

lemma Close_plateau: "35 \<le> i \<Longrightarrow> i < 50 \<Longrightarrow> Close (plateau_rows ! i) = 36"
  by (simp add: plateau_rows_def)

text \<open>The latest averages and the latest RSI of a series of at least 50 records.\<close>

lemma latest_avg_loss_zero_iff:
  assumes n: "50 \<le> length rows"
  shows "last (avg_loss (df_Close (DataFrame rows))) = Fin 0
           \<longleftrightarrow> (\<forall>i. length rows - 15 \<le> i \<and> i + 1 < length rows \<longrightarrow>
                  Close (rows ! i) \<le> Close (rows ! (i + 1)))"
proof -
  let ?cs = "map Close rows"
  from n have n14: "14 \<le> length ?cs" and n15: "15 \<le> length ?cs" and r15: "15 \<le> length rows"
    by simp_all
  have "last (avg_loss (df_Close (DataFrame rows))) = Fin 0
          \<longleftrightarrow> sum_list (drop (length ?cs - 14) (falls ?cs)) = 0"
    unfolding df_Close_DataFrame last_avg_loss [OF n14] by simp
  also have "\<dots> \<longleftrightarrow> (\<forall>j. length ?cs - 14 \<le> j \<and> j < length ?cs \<longrightarrow> ?cs ! (j - 1) \<le> ?cs ! j)"
    by (rule no_fall_iff [OF n15])
  also have "\<dots> \<longleftrightarrow> (\<forall>i. length rows - 15 \<le> i \<and> i + 1 < length rows \<longrightarrow>
                  Close (rows ! i) \<le> Close (rows ! (i + 1)))"
    by (rule last_pairs [OF r15])
  finally show ?thesis .
qed

lemma latest_avg_gain_zero_iff:
  assumes n: "50 \<le> length rows"
  shows "last (avg_gain (df_Close (DataFrame rows))) = Fin 0
           \<longleftrightarrow> (\<forall>i. length rows - 15 \<le> i \<and> i + 1 < length rows \<longrightarrow>
                  Close (rows ! (i + 1)) \<le> Close (rows ! i))"
proof -
  let ?cs = "map Close rows"
  from n have n14: "14 \<le> length ?cs" and n15: "15 \<le> length ?cs" and r15: "15 \<le> length rows"
    by simp_all
  have "last (avg_gain (df_Close (DataFrame rows))) = Fin 0
          \<longleftrightarrow> sum_list (drop (length ?cs - 14) (rises ?cs)) = 0"
    unfolding df_Close_DataFrame last_avg_gain [OF n14] by simp
  also have "\<dots> \<longleftrightarrow> (\<forall>j. length ?cs - 14 \<le> j \<and> j < length ?cs \<longrightarrow> ?cs ! j \<le> ?cs ! (j - 1))"
    by (rule no_rise_iff [OF n15])
  also have "\<dots> \<longleftrightarrow> (\<forall>i. length rows - 15 \<le> i \<and> i + 1 < length rows \<longrightarrow>
                  Close (rows ! (i + 1)) \<le> Close (rows ! i))"
    by (rule last_pairs [OF r15, of "\<lambda>x y. y \<le> x"])
  finally show ?thesis .
qed

lemma latest_rsi_nan_iff_rows:
  assumes n: "50 \<le> length rows"
  shows "rsi (snd (compute_technical (DataFrame rows))) = NaN
         \<longleftrightarrow> (\<forall>i. length rows - 15 \<le> i \<and> i + 1 < length rows \<longrightarrow>
                Close (rows ! i) = Close (rows ! (i + 1)))"
proof -
  from n have n15: "15 \<le> length (map Close rows)" and r15: "15 \<le> length rows"
    by simp_all
  show ?thesis
    unfolding compute_technical_rsi [OF n] latest_rsi_nan_iff [OF n15]
    by (rule last_pairs [OF r15])
qed



text \<open>The collection stage, branch by branch.\<close>

lemma collector_provider_failure:
  assumes "col_symbol input_data = Some symbol" and "symbol \<noteq> []"
    and "resolve_period (TIME_PERIODS env) (col_period input_data) = period"
    and "TIME_PERIODS env period = Some description"
    and "fetch_stock_data env symbol period = Inr historical_data"
    and "\<not> resp_success historical_data"
    and "resp_error historical_data = Some e"
  shows "DataCollectorAgent_process env input_data = (Inl e, [FetchStockData symbol period])"
  using assms by (simp add: DataCollectorAgent_process_def get_or_def Let_def)

lemma collector_after_fetches:
  assumes "col_symbol input_data = Some symbol" and "symbol \<noteq> []"
    and "resolve_period (TIME_PERIODS env) (col_period input_data) = period"
    and "TIME_PERIODS env period = Some description"
    and "fetch_stock_data env symbol period = Inr historical_data"
    and "resp_success historical_data"
    and "fetch_news env symbol = Inr news"
    and "get_stock_fundamentals env symbol = Inr fundamentals"
  shows "DataCollectorAgent_process env input_data =
           (case data_insights_ollama env symbol description historical_data news of
              Inl e \<Rightarrow> (Inl e, [FetchStockData symbol period, FetchNews symbol,
                                GetStockFundamentals symbol, CallOllama])
            | Inr data_insights \<Rightarrow>
                (Inr \<lparr>out_symbol = symbol, out_period = period,
                      out_period_description = description,
                      out_historical_data =
                        \<lparr>ch_success = resp_success historical_data,
                         ch_data = resp_data historical_data,
                         ch_info = resp_info historical_data,
                         ch_source = get_or (resp_source historical_data) ''unknown''\<rparr>,
                      out_news = news, out_fundamentals = fundamentals,
                      out_data_insights = data_insights,
                      out_chart_data = resp_data historical_data,
                      out_company_info = resp_info historical_data\<rparr>,
                 [FetchStockData symbol period, FetchNews symbol,
                  GetStockFundamentals symbol, CallOllama]))"
  using assms by (simp add: DataCollectorAgent_process_def get_or_def Let_def)


lemma select_example_input: "select_historical_data (example_input rows) = rows"
  by (simp add: select_historical_data_def example_input_def get_or_def)

lemma example_flag: "get_or (in_success (example_input rows)) False"
  by (simp add: example_input_def get_or_def)

lemma distinct_example_dates: "distinct example_dates"
  by (simp add: example_dates_def)

lemma length_example_dates: "length example_dates = 50"
  by (simp add: example_dates_def)

lemma iso_example_dates: "list_all is_iso_date example_dates"
  by (simp add: example_dates_def is_iso_date_def is_digit_def)

lemma Date_rising_rows: "map Date rising_rows = example_dates"
proof -
  have "map Date rising_rows = map (\<lambda>i. example_dates ! i) [0..<length example_dates]"
    by (simp add: rising_rows_def comp_def length_example_dates)
  then show ?thesis by (simp only: map_nth)
qed

lemma Date_short_rows: "map Date short_rows = take 49 example_dates"
  by (simp only: short_rows_def take_map [symmetric] Date_rising_rows)

text \<open>
  On dates of the form \<open>YYYY-MM-DD\<close> the conversion succeeds; on the example dates the
  comparison holds between a timestamp and a date exactly at the record itself.
\<close>

lemma iso_dates_convert:
  assumes "list_all is_iso_date (map Date rows)"
  shows "convert_Date (to_datetime iso_dates) (DataFrame rows)
     = Inr \<lparr>df_Date = map Date rows, df_Close = map (\<lambda>r. Fin (Close r)) rows,
            df_Volume = map Volume rows, df_MA20 = None, df_MA50 = None, df_RSI = None\<rparr>"
proof -
  from assms have "filter (\<lambda>s. \<not> is_iso_date s) (map Date rows) = []"
    by (simp add: filter_empty_conv list_all_iff)
  then show ?thesis
    by (simp add: convert_Date_def iso_dates_def DataFrame_def)
qed

lemma iso_rising_rows: "list_all is_iso_date (map Date rising_rows)"
  by (simp only: Date_rising_rows iso_example_dates)

lemma iso_short_rows: "list_all is_iso_date (map Date short_rows)"
  using iso_example_dates
  by (simp only: Date_short_rows list_all_iff) (blast dest: in_set_takeD)

lemma Date_rising: "i < 50 \<Longrightarrow> Date (rising_rows ! i) = example_dates ! i"
  by (simp add: rising_rows_def)

lemma iso_dates_match_rising:
  assumes "i < 50" and "j < 50"
  shows "date_eq iso_dates (map Date rising_rows ! j) (Date (rising_rows ! i)) \<longleftrightarrow> j = i"
  using distinct_example_dates assms
  by (simp add: length_examples Date_rising iso_dates_def nth_eq_iff_index_eq
        length_example_dates)

lemma length_numbered_rows: "length numbered_rows = 50"
  by (simp add: numbered_rows_def)

lemma epoch_dates_convert:
  "convert_Date (to_datetime epoch_dates) (DataFrame rows)
     = Inr \<lparr>df_Date = map Date rows, df_Close = map (\<lambda>r. Fin (Close r)) rows,
            df_Volume = map Volume rows, df_MA20 = None, df_MA50 = None, df_RSI = None\<rparr>"
  by (simp add: convert_Date_def epoch_dates_def DataFrame_def)

text \<open>A run of the analysis stage on the example input around a series of dated records.\<close>

lemma select_info_example_input: "select_company_info (example_input rows) = acme_info"
  by (simp add: select_company_info_def example_input_def get_or_def acme_info_def
        no_info_def)

lemma figures_ok_acme: "figures_ok acme_info"
  by (simp add: figures_ok_def figure_ok_def acme_info_def no_info_def)

lemma example_run:
  assumes "rows \<noteq> []" and "list_all is_iso_date (map Date rows)"
  shows "\<exists>res. AnalysisAgent_process iso_dates example_ollama (example_input rows)
                 = (Inr res, [CallOllama])"
proof -
  from assms(1) have ne: "select_historical_data (example_input rows) \<noteq> []"
    by (simp add: select_example_input)
  have conv: "convert_Date (to_datetime iso_dates)
                (DataFrame (select_historical_data (example_input rows)))
              = Inr \<lparr>df_Date = map Date rows, df_Close = map (\<lambda>r. Fin (Close r)) rows,
                     df_Volume = map Volume rows,
                     df_MA20 = None, df_MA50 = None, df_RSI = None\<rparr>"
    by (simp only: select_example_input iso_dates_convert [OF assms(2)])
  from render_prompt_succeeds [OF figures_ok_acme]
  obtain request where
    "render_prompt (get_or (in_symbol (example_input rows)) [])
       (get_or (in_period_description (example_input rows)) [])
       (select_company_info (example_input rows)) (get_or (in_news (example_input rows)) [])
       (fst (compute_technical
               \<lparr>df_Date = map Date rows, df_Close = map (\<lambda>r. Fin (Close r)) rows,
                df_Volume = map Volume rows,
                df_MA20 = None, df_MA50 = None, df_RSI = None\<rparr>))
       (snd (compute_technical
               \<lparr>df_Date = map Date rows, df_Close = map (\<lambda>r. Fin (Close r)) rows,
                df_Volume = map Volume rows,
                df_MA20 = None, df_MA50 = None, df_RSI = None\<rparr>)) = Inr request"
    unfolding select_info_example_input by blast
  from analysis_after_prompt [OF example_flag ne conv this, of example_ollama]
  show ?thesis by (simp add: example_ollama_def)
qed
section \<open>The recommendation header \<open>**RECOMMENDATION: SELL**\<close>\<close>

lemma find_sell_header:
  assumes "\<not> str_in ''RECOMMENDATION:'' (upper pre)"
  shows "str_find (upper (pre @ ''**RECOMMENDATION: SELL**'' @ post)) ''RECOMMENDATION:''
           = Some (length pre + 2)"
proof -
  have up: "upper (pre @ ''**RECOMMENDATION: SELL**'' @ post)
              = upper pre @ CHR ''*'' # (''*RECOMMENDATION: SELL**'' @ upper post)"
    by (simp add: upper_def upper_char_def)
  have nosub: "\<not> sublist ''RECOMMENDATION:'' (upper pre)"
    using assms by (simp add: str_in_sublist)
  have "\<forall>j<length (upper pre). \<not> prefix ''RECOMMENDATION:''
           (drop j (upper pre @ CHR ''*'' # (''*RECOMMENDATION: SELL**'' @ upper post)))"
    by (rule no_straddle [OF nosub]) simp
  then have "str_find (upper pre @ CHR ''*'' # (''*RECOMMENDATION: SELL**'' @ upper post))
               ''RECOMMENDATION:''
             = map_option (\<lambda>i. length (upper pre) + i)
                 (str_find (CHR ''*'' # (''*RECOMMENDATION: SELL**'' @ upper post))
                    ''RECOMMENDATION:'')"
    by (rule str_find_append_skip)
  also have "str_find (CHR ''*'' # (''*RECOMMENDATION: SELL**'' @ upper post))
               ''RECOMMENDATION:'' = Some 2"
    by simp
  finally have "str_find (upper pre @ CHR ''*'' # (''*RECOMMENDATION: SELL**'' @ upper post))
               ''RECOMMENDATION:'' = Some (length pre + 2)"
    by (simp add: length_upper)
  then show ?thesis
    unfolding up .
qed

lemma strip_sell:
  "strip ('' SELL**'' @ y) = ''SELL**'' @ rev (dropWhile isspace (rev y))"
proof -
  have "dropWhile isspace ('' SELL**'' @ y) = ''SELL**'' @ y"
    by (simp add: isspace_def)
  moreover have "rev (dropWhile isspace (rev y @ ''**LLES'')) =
                   ''SELL**'' @ rev (dropWhile isspace (rev y))"
    by (simp add: dropWhile_append isspace_def)
  ultimately show ?thesis
    by (simp add: strip_def)
qed

text \<open>
  The text tested after the header \<open>RECOMMENDATION:\<close> of \<open>**RECOMMENDATION: SELL**\<close>
  is \<open>SELL**\<close> followed by at most the next 24 characters of the reply.
\<close>

lemma sell_window:
  assumes "\<not> str_in ''RECOMMENDATION:'' (upper pre)"
  shows "\<exists>z. prefix z (take 24 post) \<and>
           rec_window (pre @ ''**RECOMMENDATION: SELL**'' @ post) ''RECOMMENDATION:''
             = ''SELL**'' @ z"
proof -
  let ?y = "take 93 post"
  let ?z = "take 24 (rev (dropWhile isspace (rev ?y)))"
  have up: "upper ''RECOMMENDATION:'' = ''RECOMMENDATION:''"
    by (simp add: upper_def upper_char_def)
  have sl: "slice (pre @ ''**RECOMMENDATION: SELL**'' @ post)
              (length pre + 2 + length ''RECOMMENDATION:'')
              (length pre + 2 + length ''RECOMMENDATION:'' + 100)
            = '' SELL**'' @ ?y"
    by (simp add: slice_def)
  have "rec_window (pre @ ''**RECOMMENDATION: SELL**'' @ post) ''RECOMMENDATION:''
          = take 30 (strip ('' SELL**'' @ ?y))"
    unfolding rec_window_def up find_sell_header [OF assms] option.case sl ..
  also have "\<dots> = take 30 (''SELL**'' @ rev (dropWhile isspace (rev ?y)))"
    by (simp only: strip_sell)
  also have "\<dots> = ''SELL**'' @ ?z"
    by simp
  finally have eq: "rec_window (pre @ ''**RECOMMENDATION: SELL**'' @ post) ''RECOMMENDATION:''
                      = ''SELL**'' @ ?z" .
  have "prefix (rev (dropWhile isspace (rev ?y))) ?y"
    by (rule rstrip_prefix)
  then have "prefix ?z (take 24 ?y)"
    by (rule take_prefix_mono)
  then have "prefix ?z (take 24 post)" by simp
  with eq show ?thesis by blast
qed

lemma sell_header_wins:
  assumes pre: "\<not> str_in ''RECOMMENDATION:'' (upper pre)"
    and post: "\<not> str_in ''BUY'' (take 24 post)"
  shows "extract_recommendation (pre @ ''**RECOMMENDATION: SELL**'' @ post) = ''SELL''"
proof -
  let ?a = "pre @ ''**RECOMMENDATION: SELL**'' @ post"
  from sell_window [OF pre] obtain z where z: "prefix z (take 24 post)"
    and w: "rec_window ?a ''RECOMMENDATION:'' = ''SELL**'' @ z"
    by blast
  have "\<not> sublist ''BUY'' z"
  proof
    assume "sublist ''BUY'' z"
    moreover from z have "sublist z (take 24 post)" by (rule prefix_imp_sublist)
    ultimately have "sublist ''BUY'' (take 24 post)" by (rule sublist_order.order_trans)
    with post show False by (simp add: str_in_sublist)
  qed
  then have nobuy: "\<not> str_in ''BUY'' (''SELL**'' @ z)"
    by (simp add: str_in_sublist sublist_Cons_right)
  have sell: "str_in ''SELL'' (''SELL**'' @ z)"
    by (simp add: str_in_def)
  have present: "str_in (upper ''RECOMMENDATION:'') (upper ?a)"
    using find_sell_header [OF pre, of post]
    by (simp add: str_in_def upper_def upper_char_def)
  show ?thesis
    unfolding extract_recommendation_def rec_loop_windows rec_patterns_def
    using present nobuy sell w
    by (simp add: has_rec_keyword_def)
qed

section \<open>Results on the extraction\<close>

text \<open>
  C1, as the code has it, for a reply in ASCII. The header spellings are tried in the
  order of \<open>rec_patterns\<close>; a spelling that occurs in the upper-cased reply contributes the
  text after its first occurrence (\<open>rec_window\<close>: 30 characters of the stripped 100). The
  first such text that holds a keyword decides, and within it \<open>BUY\<close> is preferred to
  \<open>SELL\<close> and \<open>SELL\<close> to \<open>HOLD\<close>, whatever their positions; with no such text the result
  is \<open>HOLD\<close>. In particular an ASCII reply \<open>pre @ **RECOMMENDATION: SELL** @ post\<close> gives
  \<open>SELL\<close> when the upper-cased \<open>pre\<close> holds no \<open>RECOMMENDATION:\<close> and the first 24
  characters of \<open>post\<close> hold no upper-case \<open>BUY\<close>.
\<close>

theorem recommendation_keyword_priority:
  "(is_ascii a \<longrightarrow>
      extract_recommendation a =
        (case filter has_rec_keyword
                (map (rec_window a) (filter (\<lambda>p. str_in (upper p) (upper a)) rec_patterns)) of
           [] \<Rightarrow> ''HOLD''
         | w # _ \<Rightarrow> if str_in ''BUY'' w then ''BUY''
                    else if str_in ''SELL'' w then ''SELL'' else ''HOLD''))
   \<and> (is_ascii pre \<and> is_ascii post
       \<and> \<not> str_in ''RECOMMENDATION:'' (upper pre) \<and> \<not> str_in ''BUY'' (take 24 post) \<longrightarrow>
        extract_recommendation (pre @ ''**RECOMMENDATION: SELL**'' @ post) = ''SELL'')"
proof (rule conjI)
  have "extract_recommendation a =
     (case filter has_rec_keyword
             (map (rec_window a) (filter (\<lambda>p. str_in (upper p) (upper a)) rec_patterns)) of
        [] \<Rightarrow> ''HOLD''
      | w # _ \<Rightarrow> if str_in ''BUY'' w then ''BUY''
                 else if str_in ''SELL'' w then ''SELL'' else ''HOLD'')"
    unfolding extract_recommendation_def by (rule rec_loop_windows)
  then show "is_ascii a \<longrightarrow>
      extract_recommendation a =
        (case filter has_rec_keyword
                (map (rec_window a) (filter (\<lambda>p. str_in (upper p) (upper a)) rec_patterns)) of
           [] \<Rightarrow> ''HOLD''
         | w # _ \<Rightarrow> if str_in ''BUY'' w then ''BUY''
                    else if str_in ''SELL'' w then ''SELL'' else ''HOLD'')"
    by (rule impI)
next
  show "is_ascii pre \<and> is_ascii post
       \<and> \<not> str_in ''RECOMMENDATION:'' (upper pre) \<and> \<not> str_in ''BUY'' (take 24 post) \<longrightarrow>
        extract_recommendation (pre @ ''**RECOMMENDATION: SELL**'' @ post) = ''SELL''"
    using sell_header_wins by blast
qed

theorem recommendation_keyword_priority_witness:
  "is_ascii ''RECOMMENDATION: SELL, not BUY''
   \<and> extract_recommendation ''RECOMMENDATION: SELL, not BUY'' = ''BUY''
   \<and> is_ascii ''Momentum is weak. ''
   \<and> is_ascii '' Investors who buy on dips may wait; BUY later.''
   \<and> \<not> str_in ''RECOMMENDATION:'' (upper ''Momentum is weak. '')
   \<and> \<not> str_in ''BUY'' (take 24 '' Investors who buy on dips may wait; BUY later.'')
   \<and> extract_recommendation
        (''Momentum is weak. '' @ ''**RECOMMENDATION: SELL**''
           @ '' Investors who buy on dips may wait; BUY later.'') = ''SELL''"
proof -
  have a0: "is_ascii ''RECOMMENDATION: SELL, not BUY''"
    by code_simp
  have v0: "(case filter has_rec_keyword
                (map (rec_window ''RECOMMENDATION: SELL, not BUY'')
                   (filter (\<lambda>p. str_in (upper p) (upper ''RECOMMENDATION: SELL, not BUY''))
                      rec_patterns)) of
           [] \<Rightarrow> ''HOLD''
         | w # _ \<Rightarrow> if str_in ''BUY'' w then ''BUY''
                    else if str_in ''SELL'' w then ''SELL'' else ''HOLD'') = ''BUY''"
    by code_simp
  have a1: "is_ascii ''Momentum is weak. ''"
    by code_simp
  have a2: "is_ascii '' Investors who buy on dips may wait; BUY later.''"
    by code_simp
  have h1: "\<not> str_in ''RECOMMENDATION:'' (upper ''Momentum is weak. '')"
    by (simp add: str_in_def upper_def upper_char_def)
  have h2: "\<not> str_in ''BUY'' (take 24 '' Investors who buy on dips may wait; BUY later.'')"
    by (simp add: str_in_def)
  from recommendation_keyword_priority [of "''RECOMMENDATION: SELL, not BUY''"] a0 v0
  have r0: "extract_recommendation ''RECOMMENDATION: SELL, not BUY'' = ''BUY''"
    by simp
  from recommendation_keyword_priority
         [of "[]" "''Momentum is weak. ''"
             "'' Investors who buy on dips may wait; BUY later.''"] a1 a2 h1 h2
  have "extract_recommendation
          (''Momentum is weak. '' @ ''**RECOMMENDATION: SELL**''
             @ '' Investors who buy on dips may wait; BUY later.'') = ''SELL''"
    by blast
  with a0 r0 a1 a2 h1 h2 show ?thesis by blast
qed

text \<open>
  C1 as stated fails: in the ASCII reply \<open>RECOMMENDATION: SELL, not BUY\<close> the text tested
  after the header has \<open>SELL\<close> at index 0 and \<open>BUY\<close> at index 10, and the result is \<open>BUY\<close>.
\<close>

theorem first_keyword_counterexample:
  "str_find (rec_window ''RECOMMENDATION: SELL, not BUY'' ''RECOMMENDATION:'') ''SELL'' = Some 0
   \<and> str_find (rec_window ''RECOMMENDATION: SELL, not BUY'' ''RECOMMENDATION:'') ''BUY'' = Some 10
   \<and> extract_recommendation ''RECOMMENDATION: SELL, not BUY'' = ''BUY''"
  by (simp add: extract_recommendation_def rec_patterns_def rec_window_def upper_def
        upper_char_def str_in_def strip_def slice_def isspace_def)

text \<open>
  C2. Whatever the reply, the recommendation is one of \<open>BUY\<close>, \<open>SELL\<close>, \<open>HOLD\<close> and the
  confidence one of \<open>HIGH\<close>, \<open>MEDIUM\<close>, \<open>LOW\<close>, neither being the empty string. When no
  recommendation header that occurs has a keyword in its text the recommendation is
  \<open>HOLD\<close>, and likewise the confidence is \<open>LOW\<close>; a reply whose upper-cased text holds
  neither \<open>RECOMMENDATION\<close> nor \<open>CONFIDENCE\<close> gives the pair \<open>HOLD\<close>, \<open>LOW\<close>. These are the
  values of the fields \<open>recommendation\<close> and \<open>confidence\<close> of every successful result of
  the analysis stage.
\<close>

theorem extraction_range_and_defaults:
  "extract_recommendation a \<in> {''BUY'', ''SELL'', ''HOLD''}
   \<and> extract_confidence a \<in> {''HIGH'', ''MEDIUM'', ''LOW''}
   \<and> extract_recommendation a \<noteq> [] \<and> extract_confidence a \<noteq> []
   \<and> ((\<forall>p\<in>set rec_patterns. str_in (upper p) (upper a) \<longrightarrow>
          \<not> has_rec_keyword (rec_window a p)) \<longrightarrow> extract_recommendation a = ''HOLD'')
   \<and> ((\<forall>p\<in>set conf_patterns. str_in (upper p) (upper a) \<longrightarrow>
          \<not> has_conf_keyword (conf_window a p)) \<longrightarrow> extract_confidence a = ''LOW'')
   \<and> (\<not> str_in ''RECOMMENDATION'' (upper a) \<and> \<not> str_in ''CONFIDENCE'' (upper a) \<longrightarrow>
        (extract_recommendation a, extract_confidence a) = (''HOLD'', ''LOW''))
   \<and> (AnalysisAgent_process pd call_ollama input_data = (Inr res, calls) \<longrightarrow>
        res_recommendation res = extract_recommendation (res_analysis res)
        \<and> res_confidence res = extract_confidence (res_analysis res)
        \<and> res_recommendation res \<in> {''BUY'', ''SELL'', ''HOLD''}
        \<and> res_confidence res \<in> {''HIGH'', ''MEDIUM'', ''LOW''})"
proof -
  have r: "extract_recommendation a \<in> {''BUY'', ''SELL'', ''HOLD''}"
    unfolding extract_recommendation_def by (rule rec_loop_range) simp
  have c: "extract_confidence a \<in> {''HIGH'', ''MEDIUM'', ''LOW''}"
    unfolding extract_confidence_def by (rule conf_loop_range) simp
  from r have rne: "extract_recommendation a \<noteq> []" by auto
  from c have cne: "extract_confidence a \<noteq> []" by auto
  have rd: "extract_recommendation a = ''HOLD''"
    if "\<forall>p\<in>set rec_patterns. str_in (upper p) (upper a) \<longrightarrow> \<not> has_rec_keyword (rec_window a p)"
    unfolding extract_recommendation_def using that by (rule rec_loop_default)
  have cd: "extract_confidence a = ''LOW''"
    if "\<forall>p\<in>set conf_patterns. str_in (upper p) (upper a) \<longrightarrow> \<not> has_conf_keyword (conf_window a p)"
    unfolding extract_confidence_def using that by (rule conf_loop_default)
  have none: "(extract_recommendation a, extract_confidence a) = (''HOLD'', ''LOW'')"
    if "\<not> str_in ''RECOMMENDATION'' (upper a)" and "\<not> str_in ''CONFIDENCE'' (upper a)"
  proof -
    from that(1) have "\<forall>p\<in>set rec_patterns. \<not> str_in (upper p) (upper a)"
      using rec_pattern_has_word by blast
    then have "extract_recommendation a = ''HOLD''" using rd by blast
    moreover from that(2) have "\<forall>p\<in>set conf_patterns. \<not> str_in (upper p) (upper a)"
      using conf_pattern_has_word by blast
    then have "extract_confidence a = ''LOW''" using cd by blast
    ultimately show ?thesis by simp
  qed
  have fields: "res_recommendation res = extract_recommendation (res_analysis res)
        \<and> res_confidence res = extract_confidence (res_analysis res)
        \<and> res_recommendation res \<in> {''BUY'', ''SELL'', ''HOLD''}
        \<and> res_confidence res \<in> {''HIGH'', ''MEDIUM'', ''LOW''}"
    if run: "AnalysisAgent_process pd call_ollama input_data = (Inr res, calls)"
  proof -
    have "extract_recommendation (res_analysis res) \<in> {''BUY'', ''SELL'', ''HOLD''}"
      unfolding extract_recommendation_def by (rule rec_loop_range) simp
    moreover have "extract_confidence (res_analysis res) \<in> {''HIGH'', ''MEDIUM'', ''LOW''}"
      unfolding extract_confidence_def by (rule conf_loop_range) simp
    ultimately show ?thesis
      using analysis_result_fields [OF run] by simp
  qed
  from r c rne cne rd cd none fields show ?thesis by blast
qed

theorem extraction_range_and_defaults_witness:
  "\<not> str_in ''RECOMMENDATION'' (upper ''The outlook is mixed.'')
   \<and> \<not> str_in ''CONFIDENCE'' (upper ''The outlook is mixed.'')
   \<and> (extract_recommendation ''The outlook is mixed.'',
       extract_confidence ''The outlook is mixed.'') = (''HOLD'', ''LOW'')
   \<and> (\<exists>res. AnalysisAgent_process iso_dates example_ollama (example_input short_rows)
               = (Inr res, [CallOllama])
            \<and> res_recommendation res \<in> {''BUY'', ''SELL'', ''HOLD''}
            \<and> res_confidence res \<in> {''HIGH'', ''MEDIUM'', ''LOW''})"
proof -
  have h1: "\<not> str_in ''RECOMMENDATION'' (upper ''The outlook is mixed.'')"
    by (simp add: str_in_def upper_def upper_char_def)
  have h2: "\<not> str_in ''CONFIDENCE'' (upper ''The outlook is mixed.'')"
    by (simp add: str_in_def upper_def upper_char_def)
  from extraction_range_and_defaults [of "''The outlook is mixed.''"] h1 h2
  have d: "(extract_recommendation ''The outlook is mixed.'',
       extract_confidence ''The outlook is mixed.'') = (''HOLD'', ''LOW'')"
    by blast
  have "length short_rows = 49" by (simp add: length_examples)
  then have "short_rows \<noteq> []" by auto
  from example_run [OF this iso_short_rows]
  obtain res where run: "AnalysisAgent_process iso_dates example_ollama
                           (example_input short_rows) = (Inr res, [CallOllama])"
    by blast
  with extraction_range_and_defaults
         [of "[]" iso_dates example_ollama "example_input short_rows" res "[CallOllama]"]
  have "res_recommendation res \<in> {''BUY'', ''SELL'', ''HOLD''}
        \<and> res_confidence res \<in> {''HIGH'', ''MEDIUM'', ''LOW''}"
    by blast
  with run h1 h2 d show ?thesis by blast
qed

text \<open>
  C10. The headers are looked for in the upper-cased reply, the keywords in the reply as
  it was written. So when some header that occurs is followed by a keyword in some
  spelling (its upper-cased text holds one), yet the text after no header that occurs
  holds a keyword in capitals, the recommendation stays \<open>HOLD\<close>; the same holds of the
  confidence, which stays \<open>LOW\<close>.
\<close>

theorem keyword_match_is_case_sensitive:
  "((\<exists>p\<in>set rec_patterns. str_in (upper p) (upper a)
        \<and> has_rec_keyword (upper (rec_window a p)))
     \<and> (\<forall>p\<in>set rec_patterns. str_in (upper p) (upper a) \<longrightarrow>
          \<not> has_rec_keyword (rec_window a p))
     \<longrightarrow> extract_recommendation a = ''HOLD'')
   \<and> ((\<exists>p\<in>set conf_patterns. str_in (upper p) (upper b)
        \<and> has_conf_keyword (upper (conf_window b p)))
     \<and> (\<forall>p\<in>set conf_patterns. str_in (upper p) (upper b) \<longrightarrow>
          \<not> has_conf_keyword (conf_window b p))
     \<longrightarrow> extract_confidence b = ''LOW'')"
  by (simp add: extract_recommendation_def extract_confidence_def
        rec_loop_default conf_loop_default)

theorem keyword_match_is_case_sensitive_witness:
  "str_in (upper ''RECOMMENDATION:'') (upper ''Recommendation: buy'')
   \<and> has_rec_keyword (upper (rec_window ''Recommendation: buy'' ''RECOMMENDATION:''))
   \<and> \<not> has_rec_keyword (rec_window ''Recommendation: buy'' ''RECOMMENDATION:'')
   \<and> \<not> str_in (upper ''**RECOMMENDATION:**'') (upper ''Recommendation: buy'')
   \<and> \<not> has_rec_keyword (rec_window ''Recommendation: buy'' ''RECOMMENDATION'')
   \<and> extract_recommendation ''Recommendation: buy'' = ''HOLD''
   \<and> str_in (upper ''CONFIDENCE:'') (upper ''Confidence: high'')
   \<and> has_conf_keyword (upper (conf_window ''Confidence: high'' ''CONFIDENCE:''))
   \<and> \<not> has_conf_keyword (conf_window ''Confidence: high'' ''CONFIDENCE:'')
   \<and> \<not> str_in (upper ''**CONFIDENCE:**'') (upper ''Confidence: high'')
   \<and> \<not> has_conf_keyword (conf_window ''Confidence: high'' ''CONFIDENCE'')
   \<and> extract_confidence ''Confidence: high'' = ''LOW''"
proof -
  have r0: "str_in (upper ''RECOMMENDATION:'') (upper ''Recommendation: buy'')
      \<and> has_rec_keyword (upper (rec_window ''Recommendation: buy'' ''RECOMMENDATION:''))"
    by code_simp
  have r1: "\<not> has_rec_keyword (rec_window ''Recommendation: buy'' ''RECOMMENDATION:'')"
    by code_simp
  have r2: "\<not> str_in (upper ''**RECOMMENDATION:**'') (upper ''Recommendation: buy'')"
    by code_simp
  have r3: "\<not> has_rec_keyword (rec_window ''Recommendation: buy'' ''RECOMMENDATION'')"
    by code_simp
  have c0: "str_in (upper ''CONFIDENCE:'') (upper ''Confidence: high'')
      \<and> has_conf_keyword (upper (conf_window ''Confidence: high'' ''CONFIDENCE:''))"
    by code_simp
  have c1: "\<not> has_conf_keyword (conf_window ''Confidence: high'' ''CONFIDENCE:'')"
    by code_simp
  have c2: "\<not> str_in (upper ''**CONFIDENCE:**'') (upper ''Confidence: high'')"
    by code_simp
  have c3: "\<not> has_conf_keyword (conf_window ''Confidence: high'' ''CONFIDENCE'')"
    by code_simp
  have rex: "\<exists>p\<in>set rec_patterns. str_in (upper p) (upper ''Recommendation: buy'')
        \<and> has_rec_keyword (upper (rec_window ''Recommendation: buy'' p))"
    using r0 by (simp add: rec_patterns_def)
  have rall: "\<forall>p\<in>set rec_patterns. str_in (upper p) (upper ''Recommendation: buy'') \<longrightarrow>
          \<not> has_rec_keyword (rec_window ''Recommendation: buy'' p)"
    using r1 r2 r3 by (simp add: rec_patterns_def)
  have cex: "\<exists>p\<in>set conf_patterns. str_in (upper p) (upper ''Confidence: high'')
        \<and> has_conf_keyword (upper (conf_window ''Confidence: high'' p))"
    using c0 by (simp add: conf_patterns_def)
  have call: "\<forall>p\<in>set conf_patterns. str_in (upper p) (upper ''Confidence: high'') \<longrightarrow>
          \<not> has_conf_keyword (conf_window ''Confidence: high'' p)"
    using c1 c2 c3 by (simp add: conf_patterns_def)
  from keyword_match_is_case_sensitive
         [of "''Recommendation: buy''" "''Confidence: high''"] rex rall cex call
  have "extract_recommendation ''Recommendation: buy'' = ''HOLD''
        \<and> extract_confidence ''Confidence: high'' = ''LOW''"
    by blast
  with r0 r1 r2 r3 c0 c1 c2 c3 show ?thesis by blast
qed

section \<open>Results on the technical indicators\<close>

text \<open>
  C3, as the code has it. For a series of at least 50 records the latest RSI is 100 when
  the latest 14-period average loss is zero and the latest average gain is not, as when
  the last 15 closes are strictly increasing; it is 0 when the last 15 closes are strictly
  decreasing. When the average loss and the average gain are both zero the ratio is zero
  over zero and the latest RSI is NaN. No case raises: \<open>compute_technical\<close> returns a
  value on every data frame.
\<close>

theorem rsi_when_average_loss_is_zero:
  assumes n: "50 \<le> length rows"
  shows
   "(last (avg_loss (df_Close (DataFrame rows))) = Fin 0
       \<and> last (avg_gain (df_Close (DataFrame rows))) \<noteq> Fin 0
     \<longrightarrow> rsi (snd (compute_technical (DataFrame rows))) = Fin 100)
    \<and> (last (avg_loss (df_Close (DataFrame rows))) = Fin 0
       \<and> last (avg_gain (df_Close (DataFrame rows))) = Fin 0
     \<longrightarrow> rsi (snd (compute_technical (DataFrame rows))) = NaN)
    \<and> ((\<forall>i. length rows - 15 \<le> i \<and> i + 1 < length rows \<longrightarrow>
            Close (rows ! i) < Close (rows ! (i + 1)))
     \<longrightarrow> rsi (snd (compute_technical (DataFrame rows))) = Fin 100)
    \<and> ((\<forall>i. length rows - 15 \<le> i \<and> i + 1 < length rows \<longrightarrow>
            Close (rows ! (i + 1)) < Close (rows ! i))
     \<longrightarrow> rsi (snd (compute_technical (DataFrame rows))) = Fin 0)"
proof -
  let ?cs = "map Close rows"
  let ?G = "sum_list (drop (length ?cs - 14) (rises ?cs))"
  let ?L = "sum_list (drop (length ?cs - 14) (falls ?cs))"
  from n have n14: "14 \<le> length ?cs" and n15: "15 \<le> length ?cs" and r15: "15 \<le> length rows"
    by simp_all
  have r: "rsi (snd (compute_technical (DataFrame rows))) = last (RSI (map Fin ?cs))"
    using n by (rule compute_technical_rsi)
  have g: "last (avg_gain (df_Close (DataFrame rows))) = Fin (?G / 14)"
    unfolding df_Close_DataFrame by (rule last_avg_gain [OF n14])
  have l: "last (avg_loss (df_Close (DataFrame rows))) = Fin (?L / 14)"
    unfolding df_Close_DataFrame by (rule last_avg_loss [OF n14])
  have a: "rsi (snd (compute_technical (DataFrame rows))) = Fin 100"
    if "last (avg_loss (df_Close (DataFrame rows))) = Fin 0"
      and "last (avg_gain (df_Close (DataFrame rows))) \<noteq> Fin 0"
    using that latest_rsi_cases [OF n14] by (simp add: r g l)
  have b: "rsi (snd (compute_technical (DataFrame rows))) = NaN"
    if "last (avg_loss (df_Close (DataFrame rows))) = Fin 0"
      and "last (avg_gain (df_Close (DataFrame rows))) = Fin 0"
    using that latest_rsi_cases [OF n14] by (simp add: r g l)
  have c: "rsi (snd (compute_technical (DataFrame rows))) = Fin 100"
    if "\<forall>i. length rows - 15 \<le> i \<and> i + 1 < length rows \<longrightarrow>
            Close (rows ! i) < Close (rows ! (i + 1))"
  proof -
    from that have "\<forall>j. length ?cs - 14 \<le> j \<and> j < length ?cs \<longrightarrow> ?cs ! (j - 1) < ?cs ! j"
      by (simp only: last_pairs [OF r15, of "(<)"])
    then show ?thesis
      unfolding r by (rule latest_rsi_rising [OF n15])
  qed
  have d: "rsi (snd (compute_technical (DataFrame rows))) = Fin 0"
    if "\<forall>i. length rows - 15 \<le> i \<and> i + 1 < length rows \<longrightarrow>
            Close (rows ! (i + 1)) < Close (rows ! i)"
  proof -
    from that have "\<forall>j. length ?cs - 14 \<le> j \<and> j < length ?cs \<longrightarrow> ?cs ! j < ?cs ! (j - 1)"
      by (simp only: last_pairs [OF r15, of "\<lambda>x y. y < x"])
    then show ?thesis
      unfolding r by (rule latest_rsi_falling [OF n15])
  qed
  from a b c d show ?thesis by blast
qed

theorem rsi_when_average_loss_is_zero_witness:
  "50 \<le> length rising_rows
   \<and> last (avg_loss (df_Close (DataFrame rising_rows))) = Fin 0
   \<and> last (avg_gain (df_Close (DataFrame rising_rows))) \<noteq> Fin 0
   \<and> rsi (snd (compute_technical (DataFrame rising_rows))) = Fin 100
   \<and> 50 \<le> length falling_rows
   \<and> rsi (snd (compute_technical (DataFrame falling_rows))) = Fin 0"
proof -
  have h1: "50 \<le> length rising_rows" by (simp add: length_examples)
  have h2: "50 \<le> length falling_rows" by (simp add: length_examples)
  have l: "last (avg_loss (df_Close (DataFrame rising_rows))) = Fin 0"
    unfolding latest_avg_loss_zero_iff [OF h1] by (simp add: length_examples Close_rising)
  have "\<not> Close (rising_rows ! (48 + 1)) \<le> Close (rising_rows ! 48)"
    by (simp add: Close_rising)
  then have g: "last (avg_gain (df_Close (DataFrame rising_rows))) \<noteq> Fin 0"
    unfolding latest_avg_gain_zero_iff [OF h1]
    by (auto simp: length_examples intro!: exI [of _ 48])
  have down: "\<forall>i. length falling_rows - 15 \<le> i \<and> i + 1 < length falling_rows \<longrightarrow>
            Close (falling_rows ! (i + 1)) < Close (falling_rows ! i)"
    by (simp add: length_examples Close_falling)
  from rsi_when_average_loss_is_zero [OF h1] l g
  have "rsi (snd (compute_technical (DataFrame rising_rows))) = Fin 100" by blast
  moreover from rsi_when_average_loss_is_zero [OF h2] down
  have "rsi (snd (compute_technical (DataFrame falling_rows))) = Fin 0" by blast
  ultimately show ?thesis using h1 h2 l g by blast
qed

text \<open>
  C3 as stated fails on fifty equal closes: the latest average loss is zero, and the
  latest RSI is NaN, not 100.
\<close>

theorem flat_series_rsi_counterexample:
  "50 \<le> length flat_rows
   \<and> last (avg_loss (df_Close (DataFrame flat_rows))) = Fin 0
   \<and> rsi (snd (compute_technical (DataFrame flat_rows))) = NaN"
proof -
  have h: "50 \<le> length flat_rows" by (simp add: length_examples)
  have l: "last (avg_loss (df_Close (DataFrame flat_rows))) = Fin 0"
    unfolding latest_avg_loss_zero_iff [OF h] by (simp add: length_examples Close_flat)
  have r: "rsi (snd (compute_technical (DataFrame flat_rows))) = NaN"
    unfolding latest_rsi_nan_iff_rows [OF h] by (simp add: length_examples Close_flat)
  from h l r show ?thesis by blast
qed

text \<open>
  C4, as the code has it. For a series of at least 50 records the latest RSI is NaN or
  lies between 0 and 100; it is NaN exactly when the last 15 closes are all equal.
\<close>

theorem latest_rsi_in_range_or_nan:
  assumes n: "50 \<le> length rows"
  shows
   "(rsi (snd (compute_technical (DataFrame rows))) = NaN
       \<or> (f_le (Fin 0) (rsi (snd (compute_technical (DataFrame rows))))
          \<and> f_le (rsi (snd (compute_technical (DataFrame rows)))) (Fin 100)))
    \<and> (rsi (snd (compute_technical (DataFrame rows))) = NaN
         \<longleftrightarrow> (\<forall>i. length rows - 15 \<le> i \<and> i + 1 < length rows \<longrightarrow>
                Close (rows ! i) = Close (rows ! (i + 1))))"
proof -
  let ?cs = "map Close rows"
  from n have n14: "14 \<le> length ?cs" and n15: "15 \<le> length ?cs" and r15: "15 \<le> length rows"
    by simp_all
  have r: "rsi (snd (compute_technical (DataFrame rows))) = last (RSI (map Fin ?cs))"
    using n by (rule compute_technical_rsi)
  have range: "rsi (snd (compute_technical (DataFrame rows))) = NaN
       \<or> (f_le (Fin 0) (rsi (snd (compute_technical (DataFrame rows))))
          \<and> f_le (rsi (snd (compute_technical (DataFrame rows)))) (Fin 100))"
    using latest_rsi_range [OF n14] unfolding r
    by (auto simp: f_le_def isna_def)
  have nan: "rsi (snd (compute_technical (DataFrame rows))) = NaN
         \<longleftrightarrow> (\<forall>i. length rows - 15 \<le> i \<and> i + 1 < length rows \<longrightarrow>
                Close (rows ! i) = Close (rows ! (i + 1)))"
    by (rule latest_rsi_nan_iff_rows [OF n])
  from range nan show ?thesis by (rule conjI)
qed

theorem latest_rsi_in_range_or_nan_witness:
  "50 \<le> length falling_rows
   \<and> rsi (snd (compute_technical (DataFrame falling_rows))) \<noteq> NaN
   \<and> f_le (Fin 0) (rsi (snd (compute_technical (DataFrame falling_rows))))
   \<and> f_le (rsi (snd (compute_technical (DataFrame falling_rows)))) (Fin 100)"
proof -
  have h: "50 \<le> length falling_rows" by (simp add: length_examples)
  have "Close (falling_rows ! 48) \<noteq> Close (falling_rows ! (48 + 1))"
    by (simp add: Close_falling)
  then have "\<not> (\<forall>i. length falling_rows - 15 \<le> i \<and> i + 1 < length falling_rows \<longrightarrow>
                Close (falling_rows ! i) = Close (falling_rows ! (i + 1)))"
    by (auto simp: length_examples intro!: exI [of _ 48])
  with latest_rsi_in_range_or_nan [OF h] h show ?thesis by blast
qed

text \<open>
  C4 as stated fails on a series that ends in fifteen equal closes: the latest RSI is NaN,
  which is neither at least 0 nor at most 100.
\<close>

theorem plateau_rsi_counterexample:
  "50 \<le> length plateau_rows
   \<and> rsi (snd (compute_technical (DataFrame plateau_rows))) = NaN
   \<and> \<not> f_le (Fin 0) (rsi (snd (compute_technical (DataFrame plateau_rows))))
   \<and> \<not> f_le (rsi (snd (compute_technical (DataFrame plateau_rows)))) (Fin 100)"
proof -
  have h: "50 \<le> length plateau_rows" by (simp add: length_examples)
  have r: "rsi (snd (compute_technical (DataFrame plateau_rows))) = NaN"
    unfolding latest_rsi_nan_iff_rows [OF h] by (simp add: length_examples Close_plateau)
  from h r show ?thesis by (simp add: f_le_def isna_def)
qed

text \<open>
  C8. Let the conversion of the \<open>Date\<close> column succeed and return as many timestamps as
  there are records. Then the chart data has one point for each record of the price
  series, in order, with the record's date, close and volume. Its field \<open>ma20\<close> (\<open>ma50\<close>)
  is read at the first row \<open>k\<close> whose timestamp compares equal to the record's date: the
  field is there exactly when the column exists and is not NaN at row \<open>k\<close>, and then holds
  that value; so it is there exactly when the series has at least 50 records and \<open>k\<close> is
  19 (49) or later, and is left out in the early window. When no timestamp compares equal
  to the record's date, both fields are left out.
\<close>

theorem chart_points_follow_rows:
  assumes conv: "convert_Date (to_datetime pd) (DataFrame rows) = Inr converted"
    and len: "length (df_Date converted) = length rows"
    and i: "i < length rows"
  shows
   "(let df = fst (compute_technical converted);
         chart_data = prepare_chart_data (date_eq pd) df rows;
         matches = (\<lambda>j. date_eq pd (df_Date converted ! j) (Date (rows ! i)))
     in length chart_data = length rows
        \<and> date (chart_data ! i) = Date (rows ! i)
        \<and> close (chart_data ! i) = Close (rows ! i)
        \<and> volume (chart_data ! i) = Volume (rows ! i)
        \<and> ((\<forall>j<length rows. \<not> matches j) \<longrightarrow>
               ma20 (chart_data ! i) = None \<and> ma50 (chart_data ! i) = None)
        \<and> (\<forall>k<length rows. matches k \<and> (\<forall>j<k. \<not> matches j) \<longrightarrow>
               ma20 (chart_data ! i)
                 = (case df_MA20 df of None \<Rightarrow> None
                    | Some ma \<Rightarrow> if isna (ma ! k) then None else Some (ma ! k))
             \<and> ma50 (chart_data ! i)
                 = (case df_MA50 df of None \<Rightarrow> None
                    | Some ma \<Rightarrow> if isna (ma ! k) then None else Some (ma ! k))
             \<and> (ma20 (chart_data ! i) \<noteq> None \<longleftrightarrow> 50 \<le> length rows \<and> 19 \<le> k)
             \<and> (ma50 (chart_data ! i) \<noteq> None \<longleftrightarrow> 50 \<le> length rows \<and> 49 \<le> k)))"
proof -
  let ?df = "fst (compute_technical converted)"
  let ?chart = "prepare_chart_data (date_eq pd) ?df rows"
  let ?dates = "df_Date converted"
  let ?d = "Date (rows ! i)"
  let ?cs = "map Close rows"
  from convert_Date_DataFrame [OF conv]
  have cl: "df_Close converted = map Fin ?cs" and n: "len_df converted = length rows"
    and none: "df_MA20 converted = None" "df_MA50 converted = None"
    by blast+
  have dates: "df_Date ?df = ?dates"
    using compute_technical_columns [of converted] compute_technical_few [of converted]
    by (cases "50 \<le> len_df converted") simp_all
  have cols: "df_MA20 ?df = (if 50 \<le> length rows then Some (rolling_mean 20 (map Fin ?cs))
                             else None)
      \<and> df_MA50 ?df = (if 50 \<le> length rows then Some (rolling_mean 50 (map Fin ?cs))
                        else None)"
    using compute_technical_columns [of converted] compute_technical_few [of converted]
      n cl none
    by (cases "50 \<le> len_df converted") simp_all
  have pt: "?chart ! i
       = \<lparr>date = ?d, close = Close (rows ! i), volume = Volume (rows ! i),
          ma20 = ma_field (date_eq pd) (df_MA20 ?df) (df_Date ?df) ?d,
          ma50 = ma_field (date_eq pd) (df_MA50 ?df) (df_Date ?df) ?d\<rparr>"
    using i by (rule prepare_chart_data_nth)
  have len_chart: "length ?chart = length rows" by (rule length_prepare_chart_data)
  have fields: "date (?chart ! i) = ?d \<and> close (?chart ! i) = Close (rows ! i)
      \<and> volume (?chart ! i) = Volume (rows ! i)"
    unfolding pt by simp
  have nomatch: "ma20 (?chart ! i) = None \<and> ma50 (?chart ! i) = None"
    if "\<forall>j<length rows. \<not> date_eq pd (?dates ! j) ?d"
  proof -
    from that len have "\<forall>j<length ?dates. \<not> date_eq pd (?dates ! j) ?d" by simp
    then show ?thesis
      unfolding pt dates by (simp add: ma_field_none)
  qed
  have first: "ma20 (?chart ! i)
                 = (case df_MA20 ?df of None \<Rightarrow> None
                    | Some ma \<Rightarrow> if isna (ma ! k) then None else Some (ma ! k))
             \<and> ma50 (?chart ! i)
                 = (case df_MA50 ?df of None \<Rightarrow> None
                    | Some ma \<Rightarrow> if isna (ma ! k) then None else Some (ma ! k))
             \<and> (ma20 (?chart ! i) \<noteq> None \<longleftrightarrow> 50 \<le> length rows \<and> 19 \<le> k)
             \<and> (ma50 (?chart ! i) \<noteq> None \<longleftrightarrow> 50 \<le> length rows \<and> 49 \<le> k)"
    if k: "k < length rows" and m: "date_eq pd (?dates ! k) ?d"
      and f: "\<forall>j<k. \<not> date_eq pd (?dates ! j) ?d" for k
  proof -
    from k len have kd: "k < length ?dates" by simp
    have m20: "ma20 (?chart ! i)
                 = (case df_MA20 ?df of None \<Rightarrow> None
                    | Some ma \<Rightarrow> if isna (ma ! k) then None else Some (ma ! k))"
      unfolding pt dates using ma_field_first [of k ?dates "date_eq pd" ?d] kd m f by simp
    have m50: "ma50 (?chart ! i)
                 = (case df_MA50 ?df of None \<Rightarrow> None
                    | Some ma \<Rightarrow> if isna (ma ! k) then None else Some (ma ! k))"
      unfolding pt dates using ma_field_first [of k ?dates "date_eq pd" ?d] kd m f by simp
    from k have kc: "k < length ?cs" by simp
    have v20: "(ma20 (?chart ! i) \<noteq> None \<longleftrightarrow> 50 \<le> length rows \<and> 19 \<le> k)"
    proof (cases "50 \<le> length rows")
      case True
      with cols have "df_MA20 ?df = Some (rolling_mean 20 (map Fin ?cs))" by simp
      with m20 rolling_mean_nth_Fin [of 20 k ?cs] kc show ?thesis
        using True by (auto simp: isna_def)
    next
      case False
      with cols have "df_MA20 ?df = None" by simp
      with m20 False show ?thesis by simp
    qed
    have v50: "(ma50 (?chart ! i) \<noteq> None \<longleftrightarrow> 50 \<le> length rows \<and> 49 \<le> k)"
    proof (cases "50 \<le> length rows")
      case True
      with cols have "df_MA50 ?df = Some (rolling_mean 50 (map Fin ?cs))" by simp
      with m50 rolling_mean_nth_Fin [of 50 k ?cs] kc show ?thesis
        using True by (auto simp: isna_def)
    next
      case False
      with cols have "df_MA50 ?df = None" by simp
      with m50 False show ?thesis by simp
    qed
    from m20 m50 v20 v50 show ?thesis by blast
  qed
  from len_chart fields nomatch first show ?thesis
    unfolding Let_def by blast
qed

theorem chart_points_follow_rows_witness:
  "(\<exists>converted.
      convert_Date (to_datetime iso_dates) (DataFrame rising_rows) = Inr converted
      \<and> length (df_Date converted) = length rising_rows
      \<and> 5 < length rising_rows \<and> 19 < length rising_rows
      \<and> filter (\<lambda>j. date_eq iso_dates (df_Date converted ! j) (Date (rising_rows ! 5)))
           [0..<50] = [5]
      \<and> filter (\<lambda>j. date_eq iso_dates (df_Date converted ! j) (Date (rising_rows ! 19)))
           [0..<50] = [19]
      \<and> length (prepare_chart_data (date_eq iso_dates) (fst (compute_technical converted))
                   rising_rows) = 50
      \<and> date (prepare_chart_data (date_eq iso_dates) (fst (compute_technical converted))
                 rising_rows ! 5) = ''2024-01-09''
      \<and> close (prepare_chart_data (date_eq iso_dates) (fst (compute_technical converted))
                  rising_rows ! 5) = 6
      \<and> ma20 (prepare_chart_data (date_eq iso_dates) (fst (compute_technical converted))
                 rising_rows ! 5) = None
      \<and> ma20 (prepare_chart_data (date_eq iso_dates) (fst (compute_technical converted))
                 rising_rows ! 19) \<noteq> None
      \<and> ma50 (prepare_chart_data (date_eq iso_dates) (fst (compute_technical converted))
                 rising_rows ! 19) = None)
   \<and> (\<exists>converted.
        convert_Date (to_datetime epoch_dates) (DataFrame numbered_rows) = Inr converted
        \<and> length (df_Date converted) = length numbered_rows
        \<and> 25 < length numbered_rows
        \<and> filter (\<lambda>j. date_eq epoch_dates (df_Date converted ! j) (Date (numbered_rows ! 25)))
             [0..<50] = []
        \<and> ma20 (prepare_chart_data (date_eq epoch_dates) (fst (compute_technical converted))
                   numbered_rows ! 25) = None
        \<and> ma50 (prepare_chart_data (date_eq epoch_dates) (fst (compute_technical converted))
                   numbered_rows ! 25) = None)"
proof (rule conjI)
  let ?c = "\<lparr>df_Date = map Date rising_rows,
             df_Close = map (\<lambda>r. Fin (Close r)) rising_rows,
             df_Volume = map Volume rising_rows,
             df_MA20 = None, df_MA50 = None, df_RSI = None\<rparr>"
  let ?chart = "prepare_chart_data (date_eq iso_dates) (fst (compute_technical ?c)) rising_rows"
  have conv: "convert_Date (to_datetime iso_dates) (DataFrame rising_rows) = Inr ?c"
    by (rule iso_dates_convert [OF iso_rising_rows])
  have len: "length (df_Date ?c) = length rising_rows" by simp
  have i5: "5 < length rising_rows" and i19: "19 < length rising_rows"
    by (simp_all add: length_examples)
  have f5: "filter (\<lambda>j. date_eq iso_dates (df_Date ?c ! j) (Date (rising_rows ! 5))) [0..<50]
              = [5]"
  proof -
    have "filter (\<lambda>j. date_eq iso_dates (df_Date ?c ! j) (Date (rising_rows ! 5))) [0..<50]
            = filter (\<lambda>j. j = 5) [0..<50]"
      by (rule filter_cong) (simp_all add: iso_dates_match_rising)
    also have "\<dots> = [5]" by (simp add: upt_rec)
    finally show ?thesis .
  qed
  have f19: "filter (\<lambda>j. date_eq iso_dates (df_Date ?c ! j) (Date (rising_rows ! 19))) [0..<50]
              = [19]"
  proof -
    have "filter (\<lambda>j. date_eq iso_dates (df_Date ?c ! j) (Date (rising_rows ! 19))) [0..<50]
            = filter (\<lambda>j. j = 19) [0..<50]"
      by (rule filter_cong) (simp_all add: iso_dates_match_rising)
    also have "\<dots> = [19]" by (simp add: upt_rec)
    finally show ?thesis .
  qed
  have m5: "date_eq iso_dates (df_Date ?c ! 5) (Date (rising_rows ! 5))
            \<and> (\<forall>j<5. \<not> date_eq iso_dates (df_Date ?c ! j) (Date (rising_rows ! 5)))"
    by (simp add: iso_dates_match_rising)
  have m19: "date_eq iso_dates (df_Date ?c ! 19) (Date (rising_rows ! 19))
            \<and> (\<forall>j<19. \<not> date_eq iso_dates (df_Date ?c ! j) (Date (rising_rows ! 19)))"
    by (simp add: iso_dates_match_rising)
  have r5: "Date (rising_rows ! 5) = ''2024-01-09''" "Close (rising_rows ! 5) = 6"
    by (simp_all add: rising_rows_def example_dates_def)
  note t5 = chart_points_follow_rows [OF conv len i5, unfolded Let_def]
  note t19 = chart_points_follow_rows [OF conv len i19, unfolded Let_def]
  from t5 have lc: "length ?chart = length rising_rows" by blast
  from t5 have dt: "date (?chart ! 5) = Date (rising_rows ! 5)" by blast
  from t5 have cl: "close (?chart ! 5) = Close (rising_rows ! 5)" by blast
  from t5 i5 m5
  have "ma20 (?chart ! 5) \<noteq> None \<longleftrightarrow> 50 \<le> length rising_rows \<and> 19 \<le> (5::nat)"
    by blast
  then have a5: "ma20 (?chart ! 5) = None" by simp
  from t19 i19 m19
  have "ma20 (?chart ! 19) \<noteq> None \<longleftrightarrow> 50 \<le> length rising_rows \<and> 19 \<le> (19::nat)"
    by blast
  then have a19: "ma20 (?chart ! 19) \<noteq> None" by (simp add: length_examples)
  from t19 i19 m19
  have "ma50 (?chart ! 19) \<noteq> None \<longleftrightarrow> 50 \<le> length rising_rows \<and> 49 \<le> (19::nat)"
    by blast
  then have b19: "ma50 (?chart ! 19) = None" by simp
  from lc have lc50: "length ?chart = 50" by (simp only: length_examples)
  from dt r5 have dt5: "date (?chart ! 5) = ''2024-01-09''" by (simp only:)
  from cl r5 have cl5: "close (?chart ! 5) = 6" by (simp only:)
  from conv len i5 i19 f5 f19 lc50 dt5 cl5 a5 a19 b19
  show "\<exists>converted.
      convert_Date (to_datetime iso_dates) (DataFrame rising_rows) = Inr converted
      \<and> length (df_Date converted) = length rising_rows
      \<and> 5 < length rising_rows \<and> 19 < length rising_rows
      \<and> filter (\<lambda>j. date_eq iso_dates (df_Date converted ! j) (Date (rising_rows ! 5)))
           [0..<50] = [5]
      \<and> filter (\<lambda>j. date_eq iso_dates (df_Date converted ! j) (Date (rising_rows ! 19)))
           [0..<50] = [19]
      \<and> length (prepare_chart_data (date_eq iso_dates) (fst (compute_technical converted))
                   rising_rows) = 50
      \<and> date (prepare_chart_data (date_eq iso_dates) (fst (compute_technical converted))
                 rising_rows ! 5) = ''2024-01-09''
      \<and> close (prepare_chart_data (date_eq iso_dates) (fst (compute_technical converted))
                  rising_rows ! 5) = 6
      \<and> ma20 (prepare_chart_data (date_eq iso_dates) (fst (compute_technical converted))
                 rising_rows ! 5) = None
      \<and> ma20 (prepare_chart_data (date_eq iso_dates) (fst (compute_technical converted))
                 rising_rows ! 19) \<noteq> None
      \<and> ma50 (prepare_chart_data (date_eq iso_dates) (fst (compute_technical converted))
                 rising_rows ! 19) = None"
    by (intro exI [of _ ?c] conjI)
next
  let ?c = "\<lparr>df_Date = map Date numbered_rows,
             df_Close = map (\<lambda>r. Fin (Close r)) numbered_rows,
             df_Volume = map Volume numbered_rows,
             df_MA20 = None, df_MA50 = None, df_RSI = None\<rparr>"
  let ?chart =
    "prepare_chart_data (date_eq epoch_dates) (fst (compute_technical ?c)) numbered_rows"
  have conv: "convert_Date (to_datetime epoch_dates) (DataFrame numbered_rows) = Inr ?c"
    by (rule epoch_dates_convert)
  have len: "length (df_Date ?c) = length numbered_rows" by simp
  have i25: "25 < length numbered_rows" by (simp add: length_numbered_rows)
  have none: "\<forall>j<length numbered_rows.
                 \<not> date_eq epoch_dates (df_Date ?c ! j) (Date (numbered_rows ! 25))"
    by (simp add: epoch_dates_def)
  have f: "filter (\<lambda>j. date_eq epoch_dates (df_Date ?c ! j) (Date (numbered_rows ! 25)))
             [0..<50] = []"
    by (simp add: epoch_dates_def)
  note t = chart_points_follow_rows [OF conv len i25, unfolded Let_def]
  from t none have a: "ma20 (?chart ! 25) = None" by blast
  from t none have b: "ma50 (?chart ! 25) = None" by blast
  from conv len i25 f a b
  show "\<exists>converted.
        convert_Date (to_datetime epoch_dates) (DataFrame numbered_rows) = Inr converted
        \<and> length (df_Date converted) = length numbered_rows
        \<and> 25 < length numbered_rows
        \<and> filter (\<lambda>j. date_eq epoch_dates (df_Date converted ! j) (Date (numbered_rows ! 25)))
             [0..<50] = []
        \<and> ma20 (prepare_chart_data (date_eq epoch_dates) (fst (compute_technical converted))
                   numbered_rows ! 25) = None
        \<and> ma50 (prepare_chart_data (date_eq epoch_dates) (fst (compute_technical converted))
                   numbered_rows ! 25) = None"
    by (intro exI [of _ ?c] conjI)
qed
section \<open>Results on the two stages\<close>

text \<open>
  C5. The technical indicators are the five values when the series has at least 50
  records; with fewer than 50 they are the single field \<open>error\<close> with its explanation,
  and no column is added to the data frame. For an input that passes the two guards and
  whose series has fewer than 50 records the stage goes on as for any other series: what
  can end it is the conversion of the dates, a text among the figures of the company
  information, or the text-generation service, each with its own message; when the
  figures can be shown the service is called with a prompt that carries the placeholder,
  and when the service answers the stage returns a successful result that carries it too.
\<close>

theorem insufficient_history_placeholder:
  "(convert_Date to_dt (DataFrame rows) = Inr frame \<and> 50 \<le> length rows \<longrightarrow>
      (\<exists>latest s20 s50 r t. snd (compute_technical frame) = Indicators latest s20 s50 r t))
   \<and> (convert_Date to_dt (DataFrame rows) = Inr frame \<and> length rows < 50 \<longrightarrow>
        compute_technical frame
          = (frame, NoIndicators ''Not enough data points for technical analysis''))
   \<and> (in_success input_data = Some True
       \<and> select_historical_data input_data \<noteq> []
       \<and> length (select_historical_data input_data) < 50
      \<longrightarrow>
        (\<forall>e. convert_Date (to_datetime pd) (DataFrame (select_historical_data input_data))
                = Inl e \<longrightarrow>
              AnalysisAgent_process pd call_ollama input_data = (Inl e, []))
        \<and> (\<forall>converted.
              convert_Date (to_datetime pd) (DataFrame (select_historical_data input_data))
                = Inr converted \<longrightarrow>
              ((\<exists>request.
                   render_prompt (get_or (in_symbol input_data) [])
                     (get_or (in_period_description input_data) [])
                     (select_company_info input_data) (get_or (in_news input_data) [])
                     converted
                     (NoIndicators ''Not enough data points for technical analysis'')
                   = Inr request)
                 \<longleftrightarrow> figures_ok (select_company_info input_data))
              \<and> (\<forall>e. render_prompt (get_or (in_symbol input_data) [])
                        (get_or (in_period_description input_data) [])
                        (select_company_info input_data) (get_or (in_news input_data) [])
                        converted
                        (NoIndicators ''Not enough data points for technical analysis'')
                      = Inl e \<longrightarrow>
                    AnalysisAgent_process pd call_ollama input_data = (Inl e, []))
              \<and> (\<forall>request.
                    render_prompt (get_or (in_symbol input_data) [])
                      (get_or (in_period_description input_data) [])
                      (select_company_info input_data) (get_or (in_news input_data) [])
                      converted
                      (NoIndicators ''Not enough data points for technical analysis'')
                    = Inr request \<longrightarrow>
                    technical_lines request
                      = NoIndicators ''Not enough data points for technical analysis''
                    \<and> (\<forall>e. call_ollama request = Inl e \<longrightarrow>
                          AnalysisAgent_process pd call_ollama input_data
                            = (Inl e, [CallOllama]))
                    \<and> (\<forall>analysis. call_ollama request = Inr analysis \<longrightarrow>
                          (\<exists>res. AnalysisAgent_process pd call_ollama input_data
                                    = (Inr res, [CallOllama])
                                 \<and> res_analysis res = analysis
                                 \<and> res_technical_indicators res
                                     = NoIndicators
                                         ''Not enough data points for technical analysis'')))))"
proof (intro conjI)
  show "convert_Date to_dt (DataFrame rows) = Inr frame \<and> 50 \<le> length rows \<longrightarrow>
      (\<exists>latest s20 s50 r t. snd (compute_technical frame) = Indicators latest s20 s50 r t)"
  proof
    assume a: "convert_Date to_dt (DataFrame rows) = Inr frame \<and> 50 \<le> length rows"
    then have "len_df frame = length rows" using convert_Date_DataFrame by blast
    with a have "50 \<le> len_df frame" by simp
    then show "\<exists>latest s20 s50 r t.
                 snd (compute_technical frame) = Indicators latest s20 s50 r t"
      by (simp add: compute_technical_def Let_def)
  qed
next
  show "convert_Date to_dt (DataFrame rows) = Inr frame \<and> length rows < 50 \<longrightarrow>
        compute_technical frame
          = (frame, NoIndicators ''Not enough data points for technical analysis'')"
  proof
    assume a: "convert_Date to_dt (DataFrame rows) = Inr frame \<and> length rows < 50"
    then have "len_df frame = length rows" using convert_Date_DataFrame by blast
    with a have "len_df frame < 50" by simp
    then show "compute_technical frame
          = (frame, NoIndicators ''Not enough data points for technical analysis'')"
      by (rule compute_technical_few)
  qed
next
  let ?none = "NoIndicators ''Not enough data points for technical analysis''"
  let ?rows = "select_historical_data input_data"
  let ?render = "render_prompt (get_or (in_symbol input_data) [])
                   (get_or (in_period_description input_data) [])
                   (select_company_info input_data) (get_or (in_news input_data) [])"
  show "in_success input_data = Some True \<and> ?rows \<noteq> [] \<and> length ?rows < 50
      \<longrightarrow>
        (\<forall>e. convert_Date (to_datetime pd) (DataFrame ?rows) = Inl e \<longrightarrow>
              AnalysisAgent_process pd call_ollama input_data = (Inl e, []))
        \<and> (\<forall>converted.
              convert_Date (to_datetime pd) (DataFrame ?rows) = Inr converted \<longrightarrow>
              ((\<exists>request. ?render converted ?none = Inr request)
                 \<longleftrightarrow> figures_ok (select_company_info input_data))
              \<and> (\<forall>e. ?render converted ?none = Inl e \<longrightarrow>
                    AnalysisAgent_process pd call_ollama input_data = (Inl e, []))
              \<and> (\<forall>request.
                    ?render converted ?none = Inr request \<longrightarrow>
                    technical_lines request = ?none
                    \<and> (\<forall>e. call_ollama request = Inl e \<longrightarrow>
                          AnalysisAgent_process pd call_ollama input_data
                            = (Inl e, [CallOllama]))
                    \<and> (\<forall>analysis. call_ollama request = Inr analysis \<longrightarrow>
                          (\<exists>res. AnalysisAgent_process pd call_ollama input_data
                                    = (Inr res, [CallOllama])
                                 \<and> res_analysis res = analysis
                                 \<and> res_technical_indicators res = ?none))))"
  proof (intro impI conjI allI)
    assume a: "in_success input_data = Some True \<and> ?rows \<noteq> [] \<and> length ?rows < 50"
    then have s: "get_or (in_success input_data) False" by (simp add: success_flag)
    from a have ne: "?rows \<noteq> []" by blast
    {
      fix e
      assume "convert_Date (to_datetime pd) (DataFrame ?rows) = Inl e"
      with s ne show "AnalysisAgent_process pd call_ollama input_data = (Inl e, [])"
        by (rule analysis_dates_fail)
    next
      fix converted
      assume c: "convert_Date (to_datetime pd) (DataFrame ?rows) = Inr converted"
      then have "len_df converted = length ?rows" using convert_Date_DataFrame by blast
      with a have "len_df converted < 50" by simp
      then have t: "compute_technical converted = (converted, ?none)"
        by (rule compute_technical_few)
      show "(\<exists>request. ?render converted ?none = Inr request)
              \<longleftrightarrow> figures_ok (select_company_info input_data)"
        using render_prompt_succeeds [of "select_company_info input_data"]
          render_prompt_fails [of "select_company_info input_data"]
        by (metis sum.distinct(1))
      {
        fix e
        assume "?render converted ?none = Inl e"
        then have "?render (fst (compute_technical converted))
                     (snd (compute_technical converted)) = Inl e"
          by (simp only: t fst_conv snd_conv)
        with s ne c show "AnalysisAgent_process pd call_ollama input_data = (Inl e, [])"
          by (rule analysis_prompt_fails)
      next
        fix request
        assume r: "?render converted ?none = Inr request"
        then show "technical_lines request = ?none"
          by (rule render_prompt_technical)
        from r have "?render (fst (compute_technical converted))
                       (snd (compute_technical converted)) = Inr request"
          by (simp only: t fst_conv snd_conv)
        note run = analysis_after_prompt [OF s ne c this, of call_ollama]
        {
          fix e
          assume "call_ollama request = Inl e"
          with run show "AnalysisAgent_process pd call_ollama input_data
                           = (Inl e, [CallOllama])"
            by simp
        next
          fix analysis
          assume "call_ollama request = Inr analysis"
          with run t show "\<exists>res. AnalysisAgent_process pd call_ollama input_data
                                    = (Inr res, [CallOllama])
                                 \<and> res_analysis res = analysis
                                 \<and> res_technical_indicators res = ?none"
            by simp
        }
      }
    }
  qed
qed

theorem insufficient_history_placeholder_witness:
  "length short_rows = 49
   \<and> in_success (example_input short_rows) = Some True
   \<and> select_historical_data (example_input short_rows) = short_rows
   \<and> figures_ok (select_company_info (example_input short_rows))
   \<and> (\<exists>converted.
         convert_Date (to_datetime iso_dates) (DataFrame short_rows) = Inr converted
         \<and> compute_technical converted
             = (converted, NoIndicators ''Not enough data points for technical analysis''))
   \<and> (\<exists>res. AnalysisAgent_process iso_dates example_ollama (example_input short_rows)
               = (Inr res, [CallOllama])
            \<and> res_technical_indicators res
                = NoIndicators ''Not enough data points for technical analysis'')
   \<and> in_success (example_input undated_rows) = Some True
   \<and> select_historical_data (example_input undated_rows) = undated_rows
   \<and> length undated_rows = 1
   \<and> convert_Date (to_datetime iso_dates) (DataFrame undated_rows)
       = Inl ''Unknown datetime string format, unable to parse: n/a''
   \<and> AnalysisAgent_process iso_dates example_ollama (example_input undated_rows)
       = (Inl ''Unknown datetime string format, unable to parse: n/a'', [])
   \<and> in_success worded_input = Some True
   \<and> select_historical_data worded_input = short_rows
   \<and> \<not> figures_ok (select_company_info worded_input)
   \<and> AnalysisAgent_process iso_dates example_ollama worded_input = (Inl TypeError_div, [])
   \<and> 50 \<le> length rising_rows
   \<and> (\<exists>converted latest s20 s50 r t.
         convert_Date (to_datetime iso_dates) (DataFrame rising_rows) = Inr converted
         \<and> snd (compute_technical converted) = Indicators latest s20 s50 r t)"
proof -
  let ?none = "NoIndicators ''Not enough data points for technical analysis''"
  let ?frame = "\<lambda>rows :: string row list.
                  \<lparr>df_Date = map Date rows, df_Close = map (\<lambda>r. Fin (Close r)) rows,
                   df_Volume = map Volume rows,
                   df_MA20 = None, df_MA50 = None, df_RSI = None\<rparr>"
  let ?msg = "''Unknown datetime string format, unable to parse: n/a''"
  have l: "length short_rows = 49" by (simp add: length_examples)
  then have l50: "length short_rows < 50" and ne: "short_rows \<noteq> []" by auto
  have s: "in_success (example_input short_rows) = Some True"
    by (simp add: example_input_def)
  have sel: "select_historical_data (example_input short_rows) = short_rows"
    by (rule select_example_input)
  have ok: "figures_ok (select_company_info (example_input short_rows))"
    by (simp only: select_info_example_input figures_ok_acme)
  have conv: "convert_Date (to_datetime iso_dates) (DataFrame short_rows)
                = Inr (?frame short_rows)"
    by (rule iso_dates_convert [OF iso_short_rows])
  note main = insufficient_history_placeholder
                [of "to_datetime iso_dates" short_rows "?frame short_rows"
                    "example_input short_rows" iso_dates example_ollama]
  from main conv l50
  have t: "compute_technical (?frame short_rows) = (?frame short_rows, ?none)"
    by blast
  from main s sel ne l50 conv ok
  obtain request where
    r: "render_prompt (get_or (in_symbol (example_input short_rows)) [])
          (get_or (in_period_description (example_input short_rows)) [])
          (select_company_info (example_input short_rows))
          (get_or (in_news (example_input short_rows)) [])
          (?frame short_rows) ?none = Inr request"
    by (simp only:) blast
  have reply: "example_ollama request
      = Inr ''Momentum is weak. **RECOMMENDATION: SELL** **CONFIDENCE: HIGH**''"
    by (simp add: example_ollama_def)
  from main s sel ne l50 conv r reply
  have run: "\<exists>res. AnalysisAgent_process iso_dates example_ollama (example_input short_rows)
               = (Inr res, [CallOllama])
            \<and> res_technical_indicators res = ?none"
    by (simp only:) blast
  have s2: "in_success (example_input undated_rows) = Some True"
    by (simp add: example_input_def)
  have sel2: "select_historical_data (example_input undated_rows) = undated_rows"
    by (rule select_example_input)
  have l2: "length undated_rows = 1" by (simp add: undated_rows_def)
  then have l2': "length undated_rows < 50" and ne2: "undated_rows \<noteq> []" by auto
  have conv2: "convert_Date (to_datetime iso_dates) (DataFrame undated_rows) = Inl ?msg"
    by (simp add: convert_Date_def iso_dates_def DataFrame_def undated_rows_def
          is_iso_date_def)
  from insufficient_history_placeholder
         [of _ _ _ "example_input undated_rows" iso_dates example_ollama]
       s2 sel2 ne2 l2' conv2
  have run2: "AnalysisAgent_process iso_dates example_ollama (example_input undated_rows)
                = (Inl ?msg, [])"
    by (simp only:) blast
  have s3: "in_success worded_input = Some True"
    by (simp add: worded_input_def example_input_def)
  have sel3: "select_historical_data worded_input = short_rows"
    by (simp add: worded_input_def select_historical_data_def example_input_def get_or_def)
  have info3: "select_company_info worded_input = worded_info"
    by (simp add: worded_input_def select_company_info_def example_input_def get_or_def
          worded_info_def acme_info_def no_info_def)
  have bad3: "\<not> figures_ok (select_company_info worded_input)"
    by (simp add: info3 figures_ok_def figure_ok_def worded_info_def acme_info_def
          no_info_def)
  have r3: "render_prompt (get_or (in_symbol worded_input) [])
          (get_or (in_period_description worded_input) [])
          (select_company_info worded_input) (get_or (in_news worded_input) [])
          (?frame short_rows) ?none = Inl TypeError_div"
    by (simp add: info3 render_prompt_def market_cap_line_def worded_info_def)
  from insufficient_history_placeholder
         [of _ _ _ worded_input iso_dates example_ollama]
       s3 sel3 ne l50 conv r3
  have run3: "AnalysisAgent_process iso_dates example_ollama worded_input
                = (Inl TypeError_div, [])"
    by (simp only:) blast
  have l4: "50 \<le> length rising_rows" by (simp add: length_examples)
  have conv4: "convert_Date (to_datetime iso_dates) (DataFrame rising_rows)
                = Inr (?frame rising_rows)"
    by (rule iso_dates_convert [OF iso_rising_rows])
  from insufficient_history_placeholder
         [of "to_datetime iso_dates" rising_rows "?frame rising_rows"] conv4 l4
  have ind: "\<exists>latest s20 s50 r t.
               snd (compute_technical (?frame rising_rows)) = Indicators latest s20 s50 r t"
    by blast
  from conv t have c1: "\<exists>converted.
         convert_Date (to_datetime iso_dates) (DataFrame short_rows) = Inr converted
         \<and> compute_technical converted = (converted, ?none)"
    by blast
  from conv4 ind have c4: "\<exists>converted latest s20 s50 r t.
         convert_Date (to_datetime iso_dates) (DataFrame rising_rows) = Inr converted
         \<and> snd (compute_technical converted) = Indicators latest s20 s50 r t"
    by blast
  from l s sel ok c1 run s2 sel2 l2 conv2 run2 s3 sel3 bad3 run3 l4 c4
  show ?thesis by (intro conjI)
qed

text \<open>
  C6. An input whose success flag is not true gives the error \<open>Invalid input data\<close>.
  Otherwise, when the price series is empty, that is when \<open>historical_data["data"]\<close> is
  empty or missing and so is \<open>chart_data\<close>, the error is
  \<open>No historical data available for analysis\<close>. In both cases no call is made to the
  text-generation service.
\<close>

theorem analysis_preconditions:
  "(in_success input_data \<noteq> Some True \<longrightarrow>
      AnalysisAgent_process pd call_ollama input_data = (Inl ''Invalid input data'', []))
   \<and> (in_success input_data = Some True \<and> select_historical_data input_data = [] \<longrightarrow>
        AnalysisAgent_process pd call_ollama input_data
          = (Inl ''No historical data available for analysis'', []))
   \<and> (select_historical_data input_data = [] \<longleftrightarrow>
        get_or (hist_data (get_or (in_historical_data input_data)
                             \<lparr>hist_data = None, hist_info = None\<rparr>)) [] = []
        \<and> get_or (in_chart_data input_data) [] = [])"
proof (intro conjI impI)
  assume "in_success input_data \<noteq> Some True"
  then have "\<not> get_or (in_success input_data) False" by (simp add: success_flag)
  then show "AnalysisAgent_process pd call_ollama input_data = (Inl ''Invalid input data'', [])"
    by (rule analysis_invalid)
next
  assume a: "in_success input_data = Some True \<and> select_historical_data input_data = []"
  then have "get_or (in_success input_data) False" by (simp add: success_flag)
  moreover from a have "select_historical_data input_data = []" by blast
  ultimately show "AnalysisAgent_process pd call_ollama input_data
          = (Inl ''No historical data available for analysis'', [])"
    by (rule analysis_no_data)
next
  show "select_historical_data input_data = [] \<longleftrightarrow>
        get_or (hist_data (get_or (in_historical_data input_data)
                             \<lparr>hist_data = None, hist_info = None\<rparr>)) [] = []
        \<and> get_or (in_chart_data input_data) [] = []"
    by (rule select_historical_data_empty)
qed

theorem analysis_preconditions_witness:
  "in_success failed_input \<noteq> Some True
   \<and> AnalysisAgent_process iso_dates example_ollama failed_input = (Inl ''Invalid input data'', [])
   \<and> in_success (example_input []) = Some True
   \<and> select_historical_data (example_input []) = []
   \<and> AnalysisAgent_process iso_dates example_ollama (example_input [])
       = (Inl ''No historical data available for analysis'', [])"
proof -
  have f: "in_success failed_input \<noteq> Some True"
    by (simp add: failed_input_def)
  have s: "in_success (example_input []) = Some True"
    by (simp add: example_input_def)
  have e: "select_historical_data (example_input []) = []"
    by (simp add: select_example_input)
  from analysis_preconditions [of failed_input iso_dates example_ollama] f
  have "AnalysisAgent_process iso_dates example_ollama failed_input = (Inl ''Invalid input data'', [])"
    by blast
  moreover from analysis_preconditions [of "example_input []" iso_dates example_ollama] s e
  have "AnalysisAgent_process iso_dates example_ollama (example_input [])
       = (Inl ''No historical data available for analysis'', [])"
    by blast
  ultimately show ?thesis using f s e by blast
qed

text \<open>
  C7. When the price and company provider is reached and reports failure with an error,
  the stage returns that error and the provider call is the only call it made: no news,
  no fundamentals, no text-generation service. When the provider reports success, then
  whatever values the news fetch and the fundamentals fetch return, the stage calls the
  text-generation service and returns a result carrying those values when the service
  answers; it fails only when that service raises.
\<close>

theorem collector_provider_failure_is_fatal:
  "col_symbol input_data = Some symbol \<and> symbol \<noteq> []
   \<and> resolve_period (TIME_PERIODS env) (col_period input_data) = period
   \<and> TIME_PERIODS env period = Some description
   \<and> fetch_stock_data env symbol period = Inr historical_data
   \<longrightarrow>
     (\<not> resp_success historical_data \<and> resp_error historical_data = Some e \<longrightarrow>
        DataCollectorAgent_process env input_data = (Inl e, [FetchStockData symbol period]))
     \<and> (resp_success historical_data \<and> fetch_news env symbol = Inr news
         \<and> get_stock_fundamentals env symbol = Inr fundamentals \<longrightarrow>
           (\<forall>t. data_insights_ollama env symbol description historical_data news = Inr t \<longrightarrow>
              (\<exists>res. DataCollectorAgent_process env input_data
                        = (Inr res, [FetchStockData symbol period, FetchNews symbol,
                                     GetStockFundamentals symbol, CallOllama])
                    \<and> out_news res = news \<and> out_fundamentals res = fundamentals
                    \<and> out_data_insights res = t))
           \<and> (\<forall>x. data_insights_ollama env symbol description historical_data news = Inl x \<longrightarrow>
                DataCollectorAgent_process env input_data
                  = (Inl x, [FetchStockData symbol period, FetchNews symbol,
                             GetStockFundamentals symbol, CallOllama])))"
proof (intro impI conjI allI)
  assume a: "col_symbol input_data = Some symbol \<and> symbol \<noteq> []
   \<and> resolve_period (TIME_PERIODS env) (col_period input_data) = period
   \<and> TIME_PERIODS env period = Some description
   \<and> fetch_stock_data env symbol period = Inr historical_data"
  {
    assume "\<not> resp_success historical_data \<and> resp_error historical_data = Some e"
    with a show "DataCollectorAgent_process env input_data
                   = (Inl e, [FetchStockData symbol period])"
      using collector_provider_failure by blast
  next
    fix t
    assume b: "resp_success historical_data \<and> fetch_news env symbol = Inr news
         \<and> get_stock_fundamentals env symbol = Inr fundamentals"
      and c: "data_insights_ollama env symbol description historical_data news = Inr t"
    from a b have "DataCollectorAgent_process env input_data =
           (case data_insights_ollama env symbol description historical_data news of
              Inl e \<Rightarrow> (Inl e, [FetchStockData symbol period, FetchNews symbol,
                                GetStockFundamentals symbol, CallOllama])
            | Inr data_insights \<Rightarrow>
                (Inr \<lparr>out_symbol = symbol, out_period = period,
                      out_period_description = description,
                      out_historical_data =
                        \<lparr>ch_success = resp_success historical_data,
                         ch_data = resp_data historical_data,
                         ch_info = resp_info historical_data,
                         ch_source = get_or (resp_source historical_data) ''unknown''\<rparr>,
                      out_news = news, out_fundamentals = fundamentals,
                      out_data_insights = data_insights,
                      out_chart_data = resp_data historical_data,
                      out_company_info = resp_info historical_data\<rparr>,
                 [FetchStockData symbol period, FetchNews symbol,
                  GetStockFundamentals symbol, CallOllama]))"
      by (intro collector_after_fetches) blast+
    with c show "\<exists>res. DataCollectorAgent_process env input_data
                        = (Inr res, [FetchStockData symbol period, FetchNews symbol,
                                     GetStockFundamentals symbol, CallOllama])
                    \<and> out_news res = news \<and> out_fundamentals res = fundamentals
                    \<and> out_data_insights res = t"
      by simp
  next
    fix x
    assume b: "resp_success historical_data \<and> fetch_news env symbol = Inr news
         \<and> get_stock_fundamentals env symbol = Inr fundamentals"
      and c: "data_insights_ollama env symbol description historical_data news = Inl x"
    from a b have "DataCollectorAgent_process env input_data =
           (case data_insights_ollama env symbol description historical_data news of
              Inl e \<Rightarrow> (Inl e, [FetchStockData symbol period, FetchNews symbol,
                                GetStockFundamentals symbol, CallOllama])
            | Inr data_insights \<Rightarrow>
                (Inr \<lparr>out_symbol = symbol, out_period = period,
                      out_period_description = description,
                      out_historical_data =
                        \<lparr>ch_success = resp_success historical_data,
                         ch_data = resp_data historical_data,
                         ch_info = resp_info historical_data,
                         ch_source = get_or (resp_source historical_data) ''unknown''\<rparr>,
                      out_news = news, out_fundamentals = fundamentals,
                      out_data_insights = data_insights,
                      out_chart_data = resp_data historical_data,
                      out_company_info = resp_info historical_data\<rparr>,
                 [FetchStockData symbol period, FetchNews symbol,
                  GetStockFundamentals symbol, CallOllama]))"
      by (intro collector_after_fetches) blast+
    with c show "DataCollectorAgent_process env input_data
                  = (Inl x, [FetchStockData symbol period, FetchNews symbol,
                             GetStockFundamentals symbol, CallOllama])"
      by simp
  }
qed

theorem collector_provider_failure_is_fatal_witness:
  "col_symbol example_request = Some ''ACME''
   \<and> resolve_period (TIME_PERIODS failing_provider) (col_period example_request) = ''1y''
   \<and> TIME_PERIODS failing_provider ''1y'' = Some ''1 Year''
   \<and> DataCollectorAgent_process failing_provider example_request
       = (Inl ''No data found for symbol'', [FetchStockData ''ACME'' ''1y''])
   \<and> fetch_news working_provider ''ACME'' = Inr []
   \<and> get_stock_fundamentals working_provider ''ACME'' = Inr []
   \<and> (\<exists>res. DataCollectorAgent_process working_provider example_request
               = (Inr res, [FetchStockData ''ACME'' ''1y'', FetchNews ''ACME'',
                            GetStockFundamentals ''ACME'', CallOllama])
            \<and> out_news res = [] \<and> out_fundamentals res = []
            \<and> out_data_insights res = ''Complete.'')"
proof -
  let ?bad = "\<lparr>resp_success = False, resp_data = [], resp_info = no_info,
                resp_source = None, resp_error = Some ''No data found for symbol''\<rparr>
              :: string stock_response"
  let ?good = "\<lparr>resp_success = True, resp_data = short_rows, resp_info = acme_info,
               resp_source = Some ''yfinance'', resp_error = None\<rparr>"
  have s: "col_symbol example_request = Some ''ACME''" "''ACME'' \<noteq> []"
    by (simp_all add: example_request_def)
  have p1: "resolve_period (TIME_PERIODS failing_provider) (col_period example_request) = ''1y''"
    by (simp add: resolve_period_def failing_provider_def example_request_def get_or_def)
  have p2: "resolve_period (TIME_PERIODS working_provider) (col_period example_request) = ''1y''"
    by (simp add: resolve_period_def working_provider_def failing_provider_def
          example_request_def get_or_def)
  have d1: "TIME_PERIODS failing_provider ''1y'' = Some ''1 Year''"
    by (simp add: failing_provider_def)
  have d2: "TIME_PERIODS working_provider ''1y'' = Some ''1 Year''"
    by (simp add: working_provider_def failing_provider_def)
  have f1: "fetch_stock_data failing_provider ''ACME'' ''1y'' = Inr ?bad"
    by (simp add: failing_provider_def)
  have f2: "fetch_stock_data working_provider ''ACME'' ''1y'' = Inr ?good"
    by (simp add: working_provider_def)
  have n: "fetch_news working_provider ''ACME'' = Inr []"
    "get_stock_fundamentals working_provider ''ACME'' = Inr []"
    by (simp_all add: working_provider_def failing_provider_def)
  have o: "data_insights_ollama working_provider ''ACME'' ''1 Year'' ?good [] = Inr ''Complete.''"
    by (simp add: working_provider_def failing_provider_def)
  from collector_provider_failure_is_fatal
         [of example_request "''ACME''" failing_provider "''1y''" "''1 Year''" ?bad
             "''No data found for symbol''"]
       s p1 d1 f1
  have bad: "DataCollectorAgent_process failing_provider example_request
       = (Inl ''No data found for symbol'', [FetchStockData ''ACME'' ''1y''])"
    by simp
  from collector_provider_failure_is_fatal
         [of example_request "''ACME''" working_provider "''1y''" "''1 Year''" ?good
             _ "[]" "[]"]
       s p2 d2 f2 n o
  have good: "\<exists>res. DataCollectorAgent_process working_provider example_request
               = (Inr res, [FetchStockData ''ACME'' ''1y'', FetchNews ''ACME'',
                            GetStockFundamentals ''ACME'', CallOllama])
            \<and> out_news res = [] \<and> out_fundamentals res = []
            \<and> out_data_insights res = ''Complete.''"
    by simp
  from s p1 d1 bad n good show ?thesis by blast
qed

end

